theory Spec2Isabelle
  imports Complex_Main "HOL-Library.Monad_Syntax"
begin

section \<open>Numbers and vectors\<close>

text \<open>
  The simulation of \<^verbatim>\<open>fish-animation\<close> (\<^verbatim>\<open>applyBoidRules\<close>, \<^verbatim>\<open>updateFishAnimation\<close>) and its
  older inline variant in \<^verbatim>\<open>App.tsx\<close> (\<^verbatim>\<open>applyBoidRules\<close>, \<^verbatim>\<open>animate\<close>, \<^verbatim>\<open>drawStars\<close>) are
  embedded here. A JavaScript \<^verbatim>\<open>number\<close> is idealised as a real number: rounding, NaN and the
  infinities of IEEE doubles are not modelled. JavaScript does not raise on a division by
  zero, it produces a non-finite number; every operation that divides therefore returns an
  option, and \<open>None\<close> stands for a result that is not a finite vector.

  \<^verbatim>\<open>THREE.Vector3\<close> belongs to the three.js library. Its methods are modelled after the
  library: \<^verbatim>\<open>divideScalar(s)\<close> is \<^verbatim>\<open>multiplyScalar(1 / s)\<close>, and \<^verbatim>\<open>normalize()\<close> is
  \<^verbatim>\<open>divideScalar(this.length() || 1)\<close>, so the zero vector normalises to itself. The methods
  mutate their receiver; the model returns the new value.
\<close>

record Vector3 =
  x :: real
  y :: real
  z :: real

definition zeroVector :: Vector3 where
  \<comment> \<open>\<^verbatim>\<open>new THREE.Vector3()\<close>\<close>
  "zeroVector = \<lparr>x = 0, y = 0, z = 0\<rparr>"

definition add :: "Vector3 \<Rightarrow> Vector3 \<Rightarrow> Vector3" where
  "add a b = \<lparr>x = x a + x b, y = y a + y b, z = z a + z b\<rparr>"

definition sub :: "Vector3 \<Rightarrow> Vector3 \<Rightarrow> Vector3" where
  "sub a b = \<lparr>x = x a - x b, y = y a - y b, z = z a - z b\<rparr>"

definition subVectors :: "Vector3 \<Rightarrow> Vector3 \<Rightarrow> Vector3" where
  \<comment> \<open>\<^verbatim>\<open>target.subVectors(a, b)\<close> overwrites the target with \<open>a - b\<close>\<close>
  "subVectors a b = \<lparr>x = x a - x b, y = y a - y b, z = z a - z b\<rparr>"

definition multiplyScalar :: "Vector3 \<Rightarrow> real \<Rightarrow> Vector3" where
  "multiplyScalar v s = \<lparr>x = x v * s, y = y v * s, z = z v * s\<rparr>"

definition divideScalar :: "Vector3 \<Rightarrow> real \<Rightarrow> Vector3 option" where
  "divideScalar v s = (if s = 0 then None else Some (multiplyScalar v (1 / s)))"

definition length_v :: "Vector3 \<Rightarrow> real" where
  \<comment> \<open>\<^verbatim>\<open>length()\<close>\<close>
  "length_v v = sqrt (x v * x v + y v * y v + z v * z v)"

definition normalize_v :: "Vector3 \<Rightarrow> Vector3 option" where
  \<comment> \<open>\<^verbatim>\<open>normalize()\<close>\<close>
  "normalize_v v = divideScalar v (if length_v v = 0 then 1 else length_v v)"

definition distanceTo :: "Vector3 \<Rightarrow> Vector3 \<Rightarrow> real" where
  "distanceTo a b =
     (let dx = x a - x b; dy = y a - y b; dz = z a - z b
      in sqrt (dx * dx + dy * dy + dz * dz))"

section \<open>Data model\<close>

text \<open>
  The orientation of a mesh is kept abstractly: either the one the asset was authored
  with, or the result of \<^verbatim>\<open>lookAt(target)\<close> followed by \<^verbatim>\<open>rotateY(angle)\<close>.
\<close>

datatype Orientation = Authored | LookAt_rotateY Vector3 real

record Mesh =
  mesh_position :: Vector3
  orientation :: Orientation

record Fish =
  fish_id :: int
  position :: Vector3
  velocity :: Vector3
  mesh :: "Mesh option"
  color :: "real \<times> real \<times> real"

record Star =
  star_x :: real
  star_y :: real
  opacity :: real
  baseOpacity :: real
  twinklePhase :: real

record MousePosition =
  mouse_x :: real
  mouse_y :: real

section \<open>Steering force: \<^verbatim>\<open>applyBoidRules\<close>\<close>

text \<open>The local accumulators of \<^verbatim>\<open>applyBoidRules\<close> that the neighbour loop updates.\<close>

record BoidAccum =
  separation :: Vector3
  alignment :: Vector3
  cohesion :: Vector3
  separationCount :: nat
  alignmentCount :: nat
  cohesionCount :: nat

definition initialAccum :: BoidAccum where
  "initialAccum =
     \<lparr>separation = zeroVector, alignment = zeroVector, cohesion = zeroVector,
      separationCount = 0, alignmentCount = 0, cohesionCount = 0\<rparr>"

text \<open>The callback of \<^verbatim>\<open>neighbors.forEach\<close>, with radii 50, 80 and 120.\<close>

definition neighborStep :: "Fish \<Rightarrow> Fish \<Rightarrow> BoidAccum \<Rightarrow> BoidAccum option" where
  "neighborStep fish neighbor acc =
     (if fish_id neighbor = fish_id fish then Some acc
      else
        let distance = distanceTo (position fish) (position neighbor);
            diff = subVectors (position fish) (position neighbor)
        in do {
          acc1 \<leftarrow>
            (if distance < 50 \<and> distance > 0 then do {
               unit \<leftarrow> normalize_v diff;
               scaled \<leftarrow> divideScalar unit distance;
               Some (acc\<lparr>separation := add (separation acc) scaled,
                         separationCount := separationCount acc + 1\<rparr>)
             } else Some acc);
          let acc2 =
            (if distance < 80
             then acc1\<lparr>alignment := add (alignment acc1) (velocity neighbor),
                       alignmentCount := alignmentCount acc1 + 1\<rparr>
             else acc1);
          let acc3 =
            (if distance < 120
             then acc2\<lparr>cohesion := add (cohesion acc2) (position neighbor),
                       cohesionCount := cohesionCount acc2 + 1\<rparr>
             else acc2);
          Some acc3
        })"

fun forEachNeighbor :: "Fish \<Rightarrow> Fish list \<Rightarrow> BoidAccum \<Rightarrow> BoidAccum option" where
  "forEachNeighbor fish [] acc = Some acc"
| "forEachNeighbor fish (neighbor # rest) acc =
     neighborStep fish neighbor acc \<bind> forEachNeighbor fish rest"

text \<open>
  The pointer in the centred frame of the simulation. \<open>innerWidth\<close> and \<open>innerHeight\<close> are
  \<^verbatim>\<open>window.innerWidth\<close> and \<^verbatim>\<open>window.innerHeight\<close>, which the browser gives as
  non-negative integers; the functions read them from the global \<^verbatim>\<open>window\<close>, the model takes
  them as arguments.
\<close>

definition mousePos :: "MousePosition \<Rightarrow> nat \<Rightarrow> nat \<Rightarrow> Vector3" where
  "mousePos mousePosition innerWidth innerHeight =
     \<lparr>x = mouse_x mousePosition - real innerWidth / 2,
      y = - (mouse_y mousePosition - real innerHeight / 2),
      z = 0\<rparr>"

text \<open>The four contributions, as they stand just before they are summed.\<close>

record Contributions =
  c_separation :: Vector3
  c_alignment :: Vector3
  c_cohesion :: Vector3
  c_mouseAttraction :: Vector3

definition mouseAttraction :: "Fish \<Rightarrow> MousePosition \<Rightarrow> nat \<Rightarrow> nat \<Rightarrow> Vector3 option" where
  "mouseAttraction fish mousePosition innerWidth innerHeight =
     (let target = mousePos mousePosition innerWidth innerHeight;
          mouseDistance = distanceTo (position fish) target
      in if mouseDistance < 200 \<and> mouseDistance > 0
         then do {
           unit \<leftarrow> normalize_v (subVectors target (position fish));
           Some (multiplyScalar unit 0.3)
         }
         else Some zeroVector)"

definition contributions ::
  "Fish \<Rightarrow> Fish list \<Rightarrow> MousePosition \<Rightarrow> nat \<Rightarrow> nat \<Rightarrow> Contributions option" where
  "contributions fish neighbors mousePosition innerWidth innerHeight = do {
     acc \<leftarrow> forEachNeighbor fish neighbors initialAccum;
     attraction \<leftarrow> mouseAttraction fish mousePosition innerWidth innerHeight;
     sep \<leftarrow>
       (if separationCount acc > 0 then do {
          mean \<leftarrow> divideScalar (separation acc) (real (separationCount acc));
          unit \<leftarrow> normalize_v mean;
          Some (multiplyScalar unit 0.5)
        } else Some (separation acc));
     ali \<leftarrow>
       (if alignmentCount acc > 0 then do {
          mean \<leftarrow> divideScalar (alignment acc) (real (alignmentCount acc));
          unit \<leftarrow> normalize_v mean;
          Some (multiplyScalar unit 0.1)
        } else Some (alignment acc));
     coh \<leftarrow>
       (if cohesionCount acc > 0 then do {
          mean \<leftarrow> divideScalar (cohesion acc) (real (cohesionCount acc));
          unit \<leftarrow> normalize_v (sub mean (position fish));
          Some (multiplyScalar unit 0.05)
        } else Some (cohesion acc));
     Some \<lparr>c_separation = sep, c_alignment = ali, c_cohesion = coh,
           c_mouseAttraction = attraction\<rparr>
   }"

definition applyBoidRules ::
  "Fish \<Rightarrow> Fish list \<Rightarrow> MousePosition \<Rightarrow> nat \<Rightarrow> nat \<Rightarrow> Vector3 option" where
  "applyBoidRules fish neighbors mousePosition innerWidth innerHeight = do {
     c \<leftarrow> contributions fish neighbors mousePosition innerWidth innerHeight;
     Some (add (add (add (add zeroVector (c_separation c)) (c_alignment c)) (c_cohesion c))
             (c_mouseAttraction c))
   }"

section \<open>Integration: \<^verbatim>\<open>updateFishAnimation\<close> and \<^verbatim>\<open>animate\<close>\<close>

text \<open>
  The callback of \<^verbatim>\<open>fishes.forEach\<close> is the same in both variants but for two constants:
  \<open>maxSpeed\<close> and the damping factor are 5 and 0.98 in \<^verbatim>\<open>updateFishAnimation\<close>, 3 and 0.99
  in \<^verbatim>\<open>animate\<close>. \<open>r1\<close>, \<open>r2\<close>, \<open>r3\<close> are the three results of \<^verbatim>\<open>Math.random()\<close>, in the
  order of the calls.
\<close>

definition jitter :: "real \<Rightarrow> real \<Rightarrow> real \<Rightarrow> Vector3" where
  "jitter r1 r2 r3 = \<lparr>x = (r1 - 0.5) * 0.01, y = (r2 - 0.5) * 0.01, z = (r3 - 0.5) * 0.005\<rparr>"

definition capSpeed :: "real \<Rightarrow> Vector3 \<Rightarrow> Vector3 option" where
  "capSpeed maxSpeed v =
     (if length_v v > maxSpeed then do {
        unit \<leftarrow> normalize_v v;
        Some (multiplyScalar unit maxSpeed)
      } else Some v)"

text \<open>
  Position and velocity after \<^verbatim>\<open>fish.position.add(fish.velocity)\<close>, before the boundaries
  are looked at.
\<close>

definition preReflection ::
  "real \<Rightarrow> real \<Rightarrow> Fish \<Rightarrow> Fish list \<Rightarrow> MousePosition \<Rightarrow> nat \<Rightarrow> nat \<Rightarrow>
   real \<times> real \<times> real \<Rightarrow> (Vector3 \<times> Vector3) option" where
  "preReflection maxSpeed damping fish fishes mousePosition innerWidth innerHeight r =
     (case r of (r1, r2, r3) \<Rightarrow> do {
        boidForce \<leftarrow> applyBoidRules fish fishes mousePosition innerWidth innerHeight;
        let v1 = add (velocity fish) boidForce;
        let v2 = add v1 (jitter r1 r2 r3);
        v3 \<leftarrow> capSpeed maxSpeed v2;
        let v4 = multiplyScalar v3 damping;
        let p1 = add (position fish) v4;
        Some (p1, v4)
      })"

text \<open>The boundary handling, on the pair of position and velocity.\<close>

definition reflect :: "real \<Rightarrow> real \<Rightarrow> Vector3 \<times> Vector3 \<Rightarrow> Vector3 \<times> Vector3" where
  "reflect halfWidth halfHeight pv =
     (case pv of (p, v) \<Rightarrow>
        let (p1, v1) =
              (if x p < - halfWidth \<or> x p > halfWidth
               then (p\<lparr>x := max (- halfWidth) (min halfWidth (x p))\<rparr>, v\<lparr>x := x v * (- 0.8)\<rparr>)
               else (p, v));
            (p2, v2) =
              (if y p1 < - halfHeight \<or> y p1 > halfHeight
               then (p1\<lparr>y := max (- halfHeight) (min halfHeight (y p1))\<rparr>,
                     v1\<lparr>y := y v1 * (- 0.8)\<rparr>)
               else (p1, v1));
            (p3, v3) =
              (if z p2 < - 100 \<or> z p2 > 100
               then (p2\<lparr>z := max (- 100) (min 100 (z p2))\<rparr>, v2\<lparr>z := z v2 * (- 0.8)\<rparr>)
               else (p2, v2))
        in (p3, v3))"

text \<open>The mesh follows the fish and, above the speed 0.01, faces along the velocity.\<close>

definition updateMesh :: "Mesh \<Rightarrow> Vector3 \<Rightarrow> Vector3 \<Rightarrow> Mesh option" where
  "updateMesh m p v =
     (let m1 = m\<lparr>mesh_position := p\<rparr>
      in if length_v v > 0.01 then do {
           direction \<leftarrow> normalize_v v;
           let targetPos = add p direction;
           Some (m1\<lparr>orientation := LookAt_rotateY targetPos (- pi / 2)\<rparr>)
         } else Some m1)"

text \<open>The body of the callback for a fish whose mesh is \<open>m\<close>.\<close>

definition stepFish ::
  "real \<Rightarrow> real \<Rightarrow> Mesh \<Rightarrow> Fish \<Rightarrow> Fish list \<Rightarrow> MousePosition \<Rightarrow> nat \<Rightarrow> nat \<Rightarrow>
   real \<times> real \<times> real \<Rightarrow> Fish option" where
  "stepFish maxSpeed damping m fish fishes mousePosition innerWidth innerHeight r = do {
     pv \<leftarrow> preReflection maxSpeed damping fish fishes mousePosition innerWidth innerHeight r;
     let (p, v) = reflect (real innerWidth / 2) (real innerHeight / 2) pv;
     m' \<leftarrow> updateMesh m p v;
     Some (fish\<lparr>position := p, velocity := v, mesh := Some m'\<rparr>)
   }"

text \<open>
  The callback at index \<open>i\<close> of the array. The fish are mutated in place, so a fish sees the
  new state of the fish before it in the array. \<open>random i\<close> are the three random numbers
  drawn while the fish at index \<open>i\<close> is processed.
\<close>

definition updateFish ::
  "real \<Rightarrow> real \<Rightarrow> MousePosition \<Rightarrow> nat \<Rightarrow> nat \<Rightarrow> (nat \<Rightarrow> real \<times> real \<times> real) \<Rightarrow>
   nat \<Rightarrow> Fish list \<Rightarrow> Fish list option" where
  "updateFish maxSpeed damping mousePosition innerWidth innerHeight random i fishes =
     (let fish = fishes ! i
      in case mesh fish of
           None \<Rightarrow> Some fishes
         | Some m \<Rightarrow> do {
             fish' \<leftarrow> stepFish maxSpeed damping m fish fishes mousePosition innerWidth
                        innerHeight (random i);
             Some (fishes[i := fish'])
           })"

fun forEachIndex :: "(nat \<Rightarrow> Fish list \<Rightarrow> Fish list option) \<Rightarrow> nat list \<Rightarrow> Fish list \<Rightarrow>
    Fish list option" where
  "forEachIndex f [] fishes = Some fishes"
| "forEachIndex f (i # rest) fishes = f i fishes \<bind> forEachIndex f rest"

definition updateFishAnimation ::
  "Fish list \<Rightarrow> MousePosition \<Rightarrow> nat \<Rightarrow> nat \<Rightarrow> (nat \<Rightarrow> real \<times> real \<times> real) \<Rightarrow>
   Fish list option" where
  "updateFishAnimation fishes mousePosition innerWidth innerHeight random =
     forEachIndex (updateFish 5 0.98 mousePosition innerWidth innerHeight random)
       [0 ..< length fishes] fishes"

text \<open>The loop over the fish inside \<^verbatim>\<open>animate\<close> of \<^verbatim>\<open>App.tsx\<close>.\<close>

definition animateFishes ::
  "Fish list \<Rightarrow> MousePosition \<Rightarrow> nat \<Rightarrow> nat \<Rightarrow> (nat \<Rightarrow> real \<times> real \<times> real) \<Rightarrow>
   Fish list option" where
  "animateFishes fishes mousePosition innerWidth innerHeight random =
     forEachIndex (updateFish 3 0.99 mousePosition innerWidth innerHeight random)
       [0 ..< length fishes] fishes"

section \<open>Starfield: \<^verbatim>\<open>drawStars\<close>\<close>

definition advanceStar :: "Star \<Rightarrow> Star" where
  "advanceStar star =
     (let s1 = star\<lparr>twinklePhase := twinklePhase star + 0.02\<rparr>
      in s1\<lparr>opacity := baseOpacity s1 + sin (twinklePhase s1) * 0.1\<rparr>)"

text \<open>
  What reaches the 2D context: the clearing of the surface, then one filled circle of
  radius 1 per star with its alpha.
\<close>

datatype DrawCmd = ClearRect real real real real | FillCircle real real real real

record Canvas =
  hasContext2d :: bool
  canvas_width :: real
  canvas_height :: real

definition drawStars :: "Canvas option \<Rightarrow> Star list \<Rightarrow> Star list \<times> DrawCmd list" where
  "drawStars canvas stars =
     (case canvas of
        None \<Rightarrow> (stars, [])
      | Some c \<Rightarrow>
          if \<not> hasContext2d c then (stars, [])
          else
            let stars' = map advanceStar stars
            in (stars',
                ClearRect 0 0 (canvas_width c) (canvas_height c) #
                map (\<lambda>s. FillCircle (star_x s) (star_y s) 1 (opacity s)) stars'))"

section \<open>Reference predicates and sample inputs\<close>

definition pointer0 :: MousePosition where
  "pointer0 = \<lparr>mouse_x = 0, mouse_y = 0\<rparr>"

definition noJitter :: "nat \<Rightarrow> real \<times> real \<times> real" where
  "noJitter i = (0.5, 0.5, 0.5)"

definition plainMesh :: Mesh where
  "plainMesh = \<lparr>mesh_position = zeroVector, orientation = Authored\<rparr>"

definition fastFish :: Fish where
  "fastFish = \<lparr>fish_id = 0, position = zeroVector, velocity = \<lparr>x = 10, y = 0, z = 0\<rparr>,
     mesh = Some plainMesh, color = (0, 0, 0)\<rparr>"

definition strandedFish :: Fish where
  "strandedFish = \<lparr>fish_id = 1, position = \<lparr>x = 1000, y = 0, z = 0\<rparr>,
     velocity = \<lparr>x = 10, y = 0, z = 0\<rparr>, mesh = None, color = (0, 0, 0)\<rparr>"

definition withinBounds :: "real \<Rightarrow> real \<Rightarrow> Vector3 \<Rightarrow> bool" where
  "withinBounds halfWidth halfHeight p \<longleftrightarrow>
     - halfWidth \<le> x p \<and> x p \<le> halfWidth \<and> - halfHeight \<le> y p \<and> y p \<le> halfHeight \<and>
     - 100 \<le> z p \<and> z p \<le> 100"

text \<open>More sample inputs: a fish about to cross the right edge of an 800 by 600 viewport,
  a fish at the origin with a neighbour 10 away, one 300 away and one at the same place,
  and a pointer at the centre of the viewport.\<close>

definition edgeFish :: Fish where
  "edgeFish = \<lparr>fish_id = 0, position = \<lparr>x = 399, y = 0, z = 0\<rparr>,
     velocity = \<lparr>x = 100 / 49, y = 0, z = 0\<rparr>, mesh = Some plainMesh, color = (0, 0, 0)\<rparr>"

definition originFish :: Fish where
  "originFish = \<lparr>fish_id = 0, position = zeroVector, velocity = \<lparr>x = 1, y = 0, z = 0\<rparr>,
     mesh = Some plainMesh, color = (0, 0, 0)\<rparr>"

definition nearFish :: Fish where
  "nearFish = \<lparr>fish_id = 1, position = \<lparr>x = 10, y = 0, z = 0\<rparr>,
     velocity = \<lparr>x = 0, y = 1, z = 0\<rparr>, mesh = Some plainMesh, color = (0, 0, 0)\<rparr>"

definition farFish :: Fish where
  "farFish = \<lparr>fish_id = 2, position = \<lparr>x = 300, y = 0, z = 0\<rparr>,
     velocity = \<lparr>x = 0, y = 1, z = 0\<rparr>, mesh = Some plainMesh, color = (0, 0, 0)\<rparr>"

definition twinFish :: Fish where
  "twinFish = \<lparr>fish_id = 3, position = zeroVector, velocity = \<lparr>x = 0, y = 1, z = 0\<rparr>,
     mesh = Some plainMesh, color = (0, 0, 0)\<rparr>"

definition pointerCentre :: MousePosition where
  "pointerCentre = \<lparr>mouse_x = 400, mouse_y = 300\<rparr>"

section \<open>The rules in the words of the specification\<close>

text \<open>
  The definitions below follow the wording of the specification, not the code; the
  contributions computed by \<^verbatim>\<open>applyBoidRules\<close> are compared with them. A sum is the
  componentwise sum, "normalized" divides a vector by its length and leaves the zero vector
  as it is, the other agents are the entries of the list whose id differs from the
  agent's.
\<close>

definition spec_unit :: "Vector3 \<Rightarrow> Vector3" where
  "spec_unit v = (if length_v v = 0 then v else multiplyScalar v (1 / length_v v))"

definition spec_sum :: "Vector3 list \<Rightarrow> Vector3" where
  "spec_sum vs = \<lparr>x = sum_list (map x vs), y = sum_list (map y vs), z = sum_list (map z vs)\<rparr>"

definition spec_others :: "Fish \<Rightarrow> Fish list \<Rightarrow> Fish list" where
  "spec_others fish neighbors = filter (\<lambda>n. fish_id n \<noteq> fish_id fish) neighbors"

definition spec_separating :: "Fish \<Rightarrow> Fish list \<Rightarrow> Fish list" where
  "spec_separating fish neighbors =
     filter (\<lambda>n. distanceTo (position fish) (position n) < 50 \<and>
                 distanceTo (position fish) (position n) > 0) (spec_others fish neighbors)"

definition spec_within :: "real \<Rightarrow> Fish \<Rightarrow> Fish list \<Rightarrow> Fish list" where
  "spec_within radius fish neighbors =
     filter (\<lambda>n. distanceTo (position fish) (position n) < radius) (spec_others fish neighbors)"

definition spec_repulsion :: "Fish \<Rightarrow> Fish \<Rightarrow> Vector3" where
  "spec_repulsion fish neighbor =
     multiplyScalar (spec_unit (subVectors (position fish) (position neighbor)))
       (1 / distanceTo (position fish) (position neighbor))"

definition spec_separation :: "Fish \<Rightarrow> Fish list \<Rightarrow> Vector3" where
  "spec_separation fish neighbors =
     (let near = spec_separating fish neighbors
      in if near = [] then zeroVector
         else
           let total = spec_sum (map (spec_repulsion fish) near);
               mean = multiplyScalar total (1 / real (length near))
           in multiplyScalar (spec_unit mean) 0.5)"

definition spec_alignment :: "Fish \<Rightarrow> Fish list \<Rightarrow> Vector3" where
  "spec_alignment fish neighbors =
     (let near = spec_within 80 fish neighbors
      in if near = [] then zeroVector
         else
           let mean = multiplyScalar (spec_sum (map velocity near)) (1 / real (length near))
           in multiplyScalar (spec_unit mean) 0.1)"

definition spec_cohesion :: "Fish \<Rightarrow> Fish list \<Rightarrow> Vector3" where
  "spec_cohesion fish neighbors =
     (let near = spec_within 120 fish neighbors
      in if near = [] then zeroVector
         else
           let centroid = multiplyScalar (spec_sum (map position near)) (1 / real (length near))
           in multiplyScalar (spec_unit (sub centroid (position fish))) 0.05)"

definition spec_pointer :: "MousePosition \<Rightarrow> real \<Rightarrow> real \<Rightarrow> Vector3" where
  "spec_pointer pointer halfWidth halfHeight =
     \<lparr>x = mouse_x pointer - halfWidth, y = - (mouse_y pointer - halfHeight), z = 0\<rparr>"

definition spec_pointerAttraction :: "Fish \<Rightarrow> MousePosition \<Rightarrow> real \<Rightarrow> real \<Rightarrow> Vector3" where
  "spec_pointerAttraction fish pointer halfWidth halfHeight =
     (let target = spec_pointer pointer halfWidth halfHeight;
          d = distanceTo (position fish) target
      in if d < 200 \<and> d > 0
         then multiplyScalar (multiplyScalar (subVectors target (position fish)) (1 / d)) 0.3
         else zeroVector)"

section \<open>Overflow, Infinity and NaN\<close>

text \<open>
  Whether a result is finite cannot be read off the reals: the numbers of JavaScript
  include \<^verbatim>\<open>Infinity\<close>, \<^verbatim>\<open>-Infinity\<close> and \<^verbatim>\<open>NaN\<close>, and a result beyond the largest double
  \<^verbatim>\<open>Number.MAX_VALUE\<close> overflows. In this second embedding of \<^verbatim>\<open>applyBoidRules\<close> a finite
  number is still exact (rounding and underflow stay outside), a result of magnitude above
  \<^verbatim>\<open>Number.MAX_VALUE\<close> becomes an infinity, and infinities and \<^verbatim>\<open>NaN\<close> propagate as IEEE 754
  has it: \<open>\<infinity> - \<infinity>\<close> and \<open>\<infinity> * 0\<close> are \<^verbatim>\<open>NaN\<close>, \<open>1 / \<infinity>\<close> is 0, every comparison with
  \<^verbatim>\<open>NaN\<close> is false, and \<^verbatim>\<open>v || 1\<close> takes 1 for 0 and for \<^verbatim>\<open>NaN\<close>. Zero is unsigned.
  \<open>Infinity True\<close> is the positive infinity. The fish handed in carry finite numbers; the
  functions end in \<open>_n\<close> and follow the source line by line, as the ones above do.
\<close>

datatype Number = Finite real | Infinity bool | NaN

definition MAX_VALUE :: real where
  "MAX_VALUE = (2 - 1 / 2 ^ 52) * 2 ^ 1023"

definition overflow :: "real \<Rightarrow> Number" where
  "overflow r =
     (if r > MAX_VALUE then Infinity True
      else if r < - MAX_VALUE then Infinity False
      else Finite r)"

fun plus_n :: "Number \<Rightarrow> Number \<Rightarrow> Number" where
  "plus_n (Finite a) (Finite b) = overflow (a + b)"
| "plus_n (Finite a) (Infinity t) = Infinity t"
| "plus_n (Infinity s) (Finite b) = Infinity s"
| "plus_n (Infinity s) (Infinity t) = (if s = t then Infinity s else NaN)"
| "plus_n NaN b = NaN"
| "plus_n a NaN = NaN"

fun negate_n :: "Number \<Rightarrow> Number" where
  "negate_n (Finite a) = Finite (- a)"
| "negate_n (Infinity s) = Infinity (\<not> s)"
| "negate_n NaN = NaN"

definition minus_n :: "Number \<Rightarrow> Number \<Rightarrow> Number" where
  "minus_n a b = plus_n a (negate_n b)"

fun times_n :: "Number \<Rightarrow> Number \<Rightarrow> Number" where
  "times_n (Finite a) (Finite b) = overflow (a * b)"
| "times_n (Finite a) (Infinity t) = (if a = 0 then NaN else Infinity (t = (0 < a)))"
| "times_n (Infinity s) (Finite b) = (if b = 0 then NaN else Infinity (s = (0 < b)))"
| "times_n (Infinity s) (Infinity t) = Infinity (s = t)"
| "times_n NaN b = NaN"
| "times_n a NaN = NaN"

fun divide_n :: "Number \<Rightarrow> Number \<Rightarrow> Number" where
  "divide_n (Finite a) (Finite b) =
     (if b = 0 then (if a = 0 then NaN else Infinity (0 < a)) else overflow (a / b))"
| "divide_n (Finite a) (Infinity t) = Finite 0"
| "divide_n (Infinity s) (Finite b) = Infinity (s = (0 \<le> b))"
| "divide_n (Infinity s) (Infinity t) = NaN"
| "divide_n NaN b = NaN"
| "divide_n a NaN = NaN"

fun sqrt_n :: "Number \<Rightarrow> Number" where
  "sqrt_n (Finite a) = (if a < 0 then NaN else Finite (sqrt a))"
| "sqrt_n (Infinity s) = (if s then Infinity True else NaN)"
| "sqrt_n NaN = NaN"

fun less_n :: "Number \<Rightarrow> Number \<Rightarrow> bool" where
  "less_n (Finite a) (Finite b) \<longleftrightarrow> a < b"
| "less_n (Finite a) (Infinity t) \<longleftrightarrow> t"
| "less_n (Infinity s) (Finite b) \<longleftrightarrow> \<not> s"
| "less_n (Infinity s) (Infinity t) \<longleftrightarrow> \<not> s \<and> t"
| "less_n NaN b \<longleftrightarrow> False"
| "less_n a NaN \<longleftrightarrow> False"

fun truthy :: "Number \<Rightarrow> bool" where
  "truthy (Finite a) \<longleftrightarrow> a \<noteq> 0"
| "truthy (Infinity s) \<longleftrightarrow> True"
| "truthy NaN \<longleftrightarrow> False"

fun isFinite :: "Number \<Rightarrow> bool" where
  "isFinite (Finite a) \<longleftrightarrow> True"
| "isFinite (Infinity s) \<longleftrightarrow> False"
| "isFinite NaN \<longleftrightarrow> False"

record Vector3_n =
  x_n :: Number
  y_n :: Number
  z_n :: Number

definition fromVector3 :: "Vector3 \<Rightarrow> Vector3_n" where
  "fromVector3 v = \<lparr>x_n = Finite (x v), y_n = Finite (y v), z_n = Finite (z v)\<rparr>"

definition finiteVector :: "Vector3_n \<Rightarrow> bool" where
  "finiteVector v \<longleftrightarrow> isFinite (x_n v) \<and> isFinite (y_n v) \<and> isFinite (z_n v)"

definition zeroVector_n :: Vector3_n where
  "zeroVector_n = \<lparr>x_n = Finite 0, y_n = Finite 0, z_n = Finite 0\<rparr>"

definition add_n :: "Vector3_n \<Rightarrow> Vector3_n \<Rightarrow> Vector3_n" where
  "add_n a b = \<lparr>x_n = plus_n (x_n a) (x_n b), y_n = plus_n (y_n a) (y_n b),
                z_n = plus_n (z_n a) (z_n b)\<rparr>"

definition sub_n :: "Vector3_n \<Rightarrow> Vector3_n \<Rightarrow> Vector3_n" where
  "sub_n a b = \<lparr>x_n = minus_n (x_n a) (x_n b), y_n = minus_n (y_n a) (y_n b),
                z_n = minus_n (z_n a) (z_n b)\<rparr>"

definition subVectors_n :: "Vector3_n \<Rightarrow> Vector3_n \<Rightarrow> Vector3_n" where
  "subVectors_n a b = \<lparr>x_n = minus_n (x_n a) (x_n b), y_n = minus_n (y_n a) (y_n b),
                       z_n = minus_n (z_n a) (z_n b)\<rparr>"

definition multiplyScalar_n :: "Vector3_n \<Rightarrow> Number \<Rightarrow> Vector3_n" where
  "multiplyScalar_n v s = \<lparr>x_n = times_n (x_n v) s, y_n = times_n (y_n v) s,
                           z_n = times_n (z_n v) s\<rparr>"

definition divideScalar_n :: "Vector3_n \<Rightarrow> Number \<Rightarrow> Vector3_n" where
  "divideScalar_n v s = multiplyScalar_n v (divide_n (Finite 1) s)"

definition length_n :: "Vector3_n \<Rightarrow> Number" where
  "length_n v =
     sqrt_n (plus_n (plus_n (times_n (x_n v) (x_n v)) (times_n (y_n v) (y_n v)))
               (times_n (z_n v) (z_n v)))"

definition normalize_n :: "Vector3_n \<Rightarrow> Vector3_n" where
  "normalize_n v = divideScalar_n v (if truthy (length_n v) then length_n v else Finite 1)"

definition distanceTo_n :: "Vector3_n \<Rightarrow> Vector3_n \<Rightarrow> Number" where
  "distanceTo_n a b =
     (let dx = minus_n (x_n a) (x_n b); dy = minus_n (y_n a) (y_n b);
          dz = minus_n (z_n a) (z_n b)
      in sqrt_n (plus_n (plus_n (times_n dx dx) (times_n dy dy)) (times_n dz dz)))"

record BoidAccum_n =
  separation_n :: Vector3_n
  alignment_n :: Vector3_n
  cohesion_n :: Vector3_n
  separationCount_n :: nat
  alignmentCount_n :: nat
  cohesionCount_n :: nat

definition initialAccum_n :: BoidAccum_n where
  "initialAccum_n =
     \<lparr>separation_n = zeroVector_n, alignment_n = zeroVector_n, cohesion_n = zeroVector_n,
      separationCount_n = 0, alignmentCount_n = 0, cohesionCount_n = 0\<rparr>"

definition neighborStep_n :: "Fish \<Rightarrow> Fish \<Rightarrow> BoidAccum_n \<Rightarrow> BoidAccum_n" where
  "neighborStep_n fish neighbor acc =
     (if fish_id neighbor = fish_id fish then acc
      else
        let distance = distanceTo_n (fromVector3 (position fish)) (fromVector3 (position neighbor));
            diff = subVectors_n (fromVector3 (position fish)) (fromVector3 (position neighbor));
            acc1 =
              (if less_n distance (Finite 50) \<and> less_n (Finite 0) distance
               then acc\<lparr>separation_n :=
                           add_n (separation_n acc) (divideScalar_n (normalize_n diff) distance),
                         separationCount_n := separationCount_n acc + 1\<rparr>
               else acc);
            acc2 =
              (if less_n distance (Finite 80)
               then acc1\<lparr>alignment_n := add_n (alignment_n acc1) (fromVector3 (velocity neighbor)),
                          alignmentCount_n := alignmentCount_n acc1 + 1\<rparr>
               else acc1);
            acc3 =
              (if less_n distance (Finite 120)
               then acc2\<lparr>cohesion_n := add_n (cohesion_n acc2) (fromVector3 (position neighbor)),
                          cohesionCount_n := cohesionCount_n acc2 + 1\<rparr>
               else acc2)
        in acc3)"

fun forEachNeighbor_n :: "Fish \<Rightarrow> Fish list \<Rightarrow> BoidAccum_n \<Rightarrow> BoidAccum_n" where
  "forEachNeighbor_n fish [] acc = acc"
| "forEachNeighbor_n fish (neighbor # rest) acc =
     forEachNeighbor_n fish rest (neighborStep_n fish neighbor acc)"

definition mousePos_n :: "MousePosition \<Rightarrow> nat \<Rightarrow> nat \<Rightarrow> Vector3_n" where
  "mousePos_n mousePosition innerWidth innerHeight =
     \<lparr>x_n = minus_n (Finite (mouse_x mousePosition)) (divide_n (Finite (real innerWidth)) (Finite 2)),
      y_n = negate_n (minus_n (Finite (mouse_y mousePosition))
                        (divide_n (Finite (real innerHeight)) (Finite 2))),
      z_n = Finite 0\<rparr>"

definition applyBoidRules_n ::
  "Fish \<Rightarrow> Fish list \<Rightarrow> MousePosition \<Rightarrow> nat \<Rightarrow> nat \<Rightarrow> Vector3_n" where
  "applyBoidRules_n fish neighbors mousePosition innerWidth innerHeight =
     (let acc = forEachNeighbor_n fish neighbors initialAccum_n;
          target = mousePos_n mousePosition innerWidth innerHeight;
          mouseDistance = distanceTo_n (fromVector3 (position fish)) target;
          attraction =
            (if less_n mouseDistance (Finite 200) \<and> less_n (Finite 0) mouseDistance
             then multiplyScalar_n
                    (normalize_n (subVectors_n target (fromVector3 (position fish)))) (Finite 0.3)
             else zeroVector_n);
          sep =
            (if separationCount_n acc > 0
             then multiplyScalar_n
                    (normalize_n (divideScalar_n (separation_n acc)
                       (Finite (real (separationCount_n acc))))) (Finite 0.5)
             else separation_n acc);
          ali =
            (if alignmentCount_n acc > 0
             then multiplyScalar_n
                    (normalize_n (divideScalar_n (alignment_n acc)
                       (Finite (real (alignmentCount_n acc))))) (Finite 0.1)
             else alignment_n acc);
          coh =
            (if cohesionCount_n acc > 0
             then multiplyScalar_n
                    (normalize_n (sub_n (divideScalar_n (cohesion_n acc)
                       (Finite (real (cohesionCount_n acc)))) (fromVector3 (position fish))))
                    (Finite 0.05)
             else cohesion_n acc)
      in add_n (add_n (add_n (add_n zeroVector_n sep) ali) coh) attraction)"

definition hugeFish1 :: Fish where
  "hugeFish1 = \<lparr>fish_id = 1, position = \<lparr>x = 60, y = 0, z = 0\<rparr>,
     velocity = \<lparr>x = MAX_VALUE, y = 0, z = 0\<rparr>, mesh = Some plainMesh, color = (0, 0, 0)\<rparr>"

definition hugeFish2 :: Fish where
  "hugeFish2 = \<lparr>fish_id = 2, position = \<lparr>x = 60, y = 0, z = 0\<rparr>,
     velocity = \<lparr>x = MAX_VALUE, y = 0, z = 0\<rparr>, mesh = Some plainMesh, color = (0, 0, 0)\<rparr>"

section \<open>Vector arithmetic\<close>

lemma length_v_nonneg: "0 \<le> length_v v"
  by (simp add: length_v_def)

lemma length_v_multiplyScalar: "length_v (multiplyScalar v s) = \<bar>s\<bar> * length_v v"
proof -
  have "x v * s * (x v * s) + y v * s * (y v * s) + z v * s * (z v * s)
        = s\<^sup>2 * (x v * x v + y v * y v + z v * z v)"
    by (simp add: power2_eq_square algebra_simps)
  then show ?thesis
    by (simp add: length_v_def multiplyScalar_def real_sqrt_mult)
qed

lemma normalize_v_Some:
  "normalize_v v = Some (multiplyScalar v (1 / (if length_v v = 0 then 1 else length_v v)))"
  by (simp add: normalize_v_def divideScalar_def)

lemma normalize_v_total: "\<exists>u. normalize_v v = Some u"
  by (simp add: normalize_v_Some)

lemma normalize_v_length:
  assumes "normalize_v v = Some u"
  shows "length_v u = (if length_v v = 0 then 0 else 1)"
proof -
  from assms have u: "u = multiplyScalar v (1 / (if length_v v = 0 then 1 else length_v v))"
    by (simp add: normalize_v_Some)
  show ?thesis
    using length_v_nonneg [of v] by (simp add: u length_v_multiplyScalar)
qed

lemma capSpeed_total: "\<exists>w. capSpeed maxSpeed v = Some w"
  by (simp add: capSpeed_def normalize_v_Some)

lemma capSpeed_bound:
  assumes "0 \<le> maxSpeed" and "capSpeed maxSpeed v = Some w"
  shows "length_v w \<le> maxSpeed"
proof (cases "length_v v > maxSpeed")
  case True
  then obtain u where u: "normalize_v v = Some u" and w: "w = multiplyScalar u maxSpeed"
    using assms(2) by (auto simp: capSpeed_def normalize_v_Some)
  from True assms(1) have "length_v v \<noteq> 0" by simp
  then have "length_v u = 1" using normalize_v_length [OF u] by simp
  then show ?thesis using assms(1) by (simp add: w length_v_multiplyScalar)
next
  case False
  then show ?thesis using assms(2) by (simp add: capSpeed_def)
qed

lemma length_v_mono:
  assumes "\<bar>x a\<bar> \<le> \<bar>x b\<bar>" "\<bar>y a\<bar> \<le> \<bar>y b\<bar>" "\<bar>z a\<bar> \<le> \<bar>z b\<bar>"
  shows "length_v a \<le> length_v b"
proof -
  have "x a * x a \<le> x b * x b" "y a * y a \<le> y b * y b" "z a * z a \<le> z b * z b"
    using assms by (simp_all add: abs_le_square_iff power2_eq_square)
  then show ?thesis by (simp add: length_v_def add_mono)
qed

lemma reflect_velocity_components:
  "\<bar>x (snd (reflect hw hh (p, v)))\<bar> \<le> \<bar>x v\<bar> \<and>
   \<bar>y (snd (reflect hw hh (p, v)))\<bar> \<le> \<bar>y v\<bar> \<and>
   \<bar>z (snd (reflect hw hh (p, v)))\<bar> \<le> \<bar>z v\<bar>"
  by (simp add: reflect_def Let_def abs_mult split: prod.splits)

lemma reflect_speed: "length_v (snd (reflect hw hh (p, v))) \<le> length_v v"
  using reflect_velocity_components [of hw hh p v] by (intro length_v_mono) simp_all

lemma reflect_position:
  assumes "0 \<le> hw" "0 \<le> hh"
  shows "- hw \<le> x (fst (reflect hw hh (p, v))) \<and> x (fst (reflect hw hh (p, v))) \<le> hw \<and>
         - hh \<le> y (fst (reflect hw hh (p, v))) \<and> y (fst (reflect hw hh (p, v))) \<le> hh \<and>
         - 100 \<le> z (fst (reflect hw hh (p, v))) \<and> z (fst (reflect hw hh (p, v))) \<le> 100"
  using assms by (auto simp: reflect_def Let_def split: prod.splits)

text \<open>Comparisons with a square root, for the evaluation of distances.\<close>

lemma sqrt_less_iff: "0 \<le> b \<Longrightarrow> sqrt a < b \<longleftrightarrow> a < b * b"
proof -
  assume "0 \<le> b"
  then have "sqrt (b * b) = b" by simp
  then have "sqrt a < b \<longleftrightarrow> sqrt a < sqrt (b * b)" by simp
  then show ?thesis by (simp only: real_sqrt_less_iff)
qed

lemma less_sqrt_iff: "0 \<le> b \<Longrightarrow> b < sqrt a \<longleftrightarrow> b * b < a"
proof -
  assume "0 \<le> b"
  then have "sqrt (b * b) = b" by simp
  then have "b < sqrt a \<longleftrightarrow> sqrt (b * b) < sqrt a" by simp
  then show ?thesis by (simp only: real_sqrt_less_iff)
qed

lemma le_sqrt_iff: "0 \<le> b \<Longrightarrow> b \<le> sqrt a \<longleftrightarrow> b * b \<le> a"
proof -
  assume "0 \<le> b"
  then have "sqrt (b * b) = b" by simp
  then have "b \<le> sqrt a \<longleftrightarrow> sqrt (b * b) \<le> sqrt a" by simp
  then show ?thesis by (simp only: real_sqrt_le_iff)
qed

section \<open>Totality and the effect of one fish update\<close>

lemma neighborStep_total: "\<exists>acc'. neighborStep fish neighbor acc = Some acc'"
  by (simp add: neighborStep_def Let_def normalize_v_Some divideScalar_def)

lemma forEachNeighbor_total: "\<exists>acc'. forEachNeighbor fish neighbors acc = Some acc'"
proof (induction neighbors arbitrary: acc)
  case Nil
  show ?case by simp
next
  case (Cons n ns)
  obtain a1 where "neighborStep fish n acc = Some a1"
    using neighborStep_total by blast
  then show ?case using Cons.IH [of a1] by simp
qed

lemma mouseAttraction_total: "\<exists>v. mouseAttraction fish mp iw ih = Some v"
  by (simp add: mouseAttraction_def Let_def normalize_v_Some)

lemma contributions_total: "\<exists>c. contributions fish neighbors mp iw ih = Some c"
proof -
  obtain acc where a: "forEachNeighbor fish neighbors initialAccum = Some acc"
    using forEachNeighbor_total by blast
  obtain m where m: "mouseAttraction fish mp iw ih = Some m"
    using mouseAttraction_total by blast
  show ?thesis
    by (simp add: contributions_def a m normalize_v_Some divideScalar_def)
qed

lemma applyBoidRules_Some: "\<exists>force. applyBoidRules fish neighbors mp iw ih = Some force"
proof -
  obtain c where "contributions fish neighbors mp iw ih = Some c"
    using contributions_total by blast
  then show ?thesis by (simp add: applyBoidRules_def)
qed

lemma updateMesh_total: "\<exists>m'. updateMesh m p v = Some m'"
  by (simp add: updateMesh_def Let_def normalize_v_Some)

lemma preReflection_total: "\<exists>pv. preReflection ms d fish fishes mp iw ih r = Some pv"
proof -
  obtain r1 r2 r3 where r: "r = (r1, r2, r3)" by (cases r) auto
  obtain force where f: "applyBoidRules fish fishes mp iw ih = Some force"
    using applyBoidRules_Some by blast
  obtain w where w: "capSpeed ms (add (add (velocity fish) force) (jitter r1 r2 r3)) = Some w"
    using capSpeed_total by blast
  show ?thesis by (simp add: preReflection_def r f w Let_def)
qed

lemma preReflection_speed:
  assumes "0 \<le> ms" "0 \<le> d" "preReflection ms d fish fishes mp iw ih r = Some (p, v)"
  shows "length_v v \<le> d * ms"
proof -
  obtain r1 r2 r3 where r: "r = (r1, r2, r3)" by (cases r) auto
  obtain force where f: "applyBoidRules fish fishes mp iw ih = Some force"
    using applyBoidRules_Some by blast
  obtain w where w: "capSpeed ms (add (add (velocity fish) force) (jitter r1 r2 r3)) = Some w"
    using capSpeed_total by blast
  from assms(3) have v: "v = multiplyScalar w d"
    by (simp add: preReflection_def r f w Let_def)
  have "length_v w \<le> ms" using capSpeed_bound [OF assms(1) w] .
  then show ?thesis using assms(2)
    by (simp add: v length_v_multiplyScalar mult_left_mono)
qed

lemma stepFish_total: "\<exists>fish'. stepFish ms d m fish fishes mp iw ih r = Some fish'"
proof -
  obtain pv where pv: "preReflection ms d fish fishes mp iw ih r = Some pv"
    using preReflection_total by blast
  obtain p v where r: "reflect (real iw / 2) (real ih / 2) pv = (p, v)" by (cases "reflect (real iw / 2) (real ih / 2) pv") auto
  obtain m' where "updateMesh m p v = Some m'" using updateMesh_total by blast
  then show ?thesis by (simp add: stepFish_def pv r)
qed

lemma stepFish_result:
  assumes "stepFish ms d m fish fishes mp iw ih r = Some fish'"
  obtains pv m' where
    "preReflection ms d fish fishes mp iw ih r = Some pv"
    "position fish' = fst (reflect (real iw / 2) (real ih / 2) pv)"
    "velocity fish' = snd (reflect (real iw / 2) (real ih / 2) pv)"
    "mesh fish' = Some m'"
    "fish_id fish' = fish_id fish"
    "color fish' = color fish"
proof -
  obtain pv where pv: "preReflection ms d fish fishes mp iw ih r = Some pv"
    using preReflection_total by blast
  obtain p v where r: "reflect (real iw / 2) (real ih / 2) pv = (p, v)" by (cases "reflect (real iw / 2) (real ih / 2) pv") auto
  obtain m' where m': "updateMesh m p v = Some m'" using updateMesh_total by blast
  from assms have "fish' = fish\<lparr>position := p, velocity := v, mesh := Some m'\<rparr>"
    by (simp add: stepFish_def pv r m')
  then show ?thesis using that [of pv m'] pv r by simp
qed

lemma stepFish_speed:
  assumes "0 \<le> ms" "0 \<le> d" "stepFish ms d m fish fishes mp iw ih r = Some fish'"
  shows "length_v (velocity fish') \<le> d * ms"
proof -
  from assms(3) obtain pv where pv: "preReflection ms d fish fishes mp iw ih r = Some pv"
    and v: "velocity fish' = snd (reflect (real iw / 2) (real ih / 2) pv)"
    by (rule stepFish_result)
  obtain p v0 where pv0: "pv = (p, v0)" by (cases pv) auto
  have "length_v (velocity fish') \<le> length_v v0"
    unfolding v pv0 by (rule reflect_speed)
  also have "\<dots> \<le> d * ms"
    using preReflection_speed [OF assms(1,2)] pv pv0 by blast
  finally show ?thesis .
qed

lemma stepFish_bounds:
  assumes "stepFish ms d m fish fishes mp iw ih r = Some fish'"
  shows "- (real iw / 2) \<le> x (position fish') \<and> x (position fish') \<le> real iw / 2 \<and>
         - (real ih / 2) \<le> y (position fish') \<and> y (position fish') \<le> real ih / 2 \<and>
         - 100 \<le> z (position fish') \<and> z (position fish') \<le> 100"
proof -
  from assms obtain pv where p: "position fish' = fst (reflect (real iw / 2) (real ih / 2) pv)"
    by (rule stepFish_result)
  obtain p0 v0 where pv0: "pv = (p0, v0)" by (cases pv) auto
  have "0 \<le> real iw / 2" "0 \<le> real ih / 2" by simp_all
  from reflect_position [OF this, of p0 v0] show ?thesis by (simp add: p pv0)
qed

section \<open>The pass over the array\<close>

lemma updateFish_null:
  "mesh (fishes ! i) = None \<Longrightarrow> updateFish ms d mp iw ih random i fishes = Some fishes"
  by (simp add: updateFish_def)

lemma updateFish_mesh:
  assumes "mesh (fishes ! i) = Some m"
  shows "\<exists>fish'. stepFish ms d m (fishes ! i) fishes mp iw ih (random i) = Some fish' \<and>
           updateFish ms d mp iw ih random i fishes = Some (fishes[i := fish'])"
proof -
  obtain fish' where "stepFish ms d m (fishes ! i) fishes mp iw ih (random i) = Some fish'"
    using stepFish_total by blast
  then show ?thesis using assms by (simp add: updateFish_def)
qed

lemma updateFish_total: "\<exists>fishes'. updateFish ms d mp iw ih random i fishes = Some fishes'"
proof (cases "mesh (fishes ! i)")
  case None
  then show ?thesis by (simp add: updateFish_null)
next
  case (Some m)
  from updateFish_mesh [OF this] show ?thesis by blast
qed

lemma updateFish_frame:
  assumes "updateFish ms d mp iw ih random i fishes = Some fishes'"
  shows "length fishes' = length fishes \<and> (j \<noteq> i \<longrightarrow> fishes' ! j = fishes ! j)"
proof (cases "mesh (fishes ! i)")
  case None
  then show ?thesis using assms by (simp add: updateFish_null)
next
  case (Some m)
  from updateFish_mesh [OF this, of ms d mp iw ih random] assms show ?thesis by auto
qed

lemma forEachIndex_total:
  "\<exists>fishes'. forEachIndex (updateFish ms d mp iw ih random) inds fishes = Some fishes'"
proof (induction inds arbitrary: fishes)
  case Nil
  show ?case by simp
next
  case (Cons i inds)
  obtain f1 where "updateFish ms d mp iw ih random i fishes = Some f1"
    using updateFish_total by blast
  then show ?case using Cons.IH [of f1] by simp
qed

lemma forEachIndex_frame:
  assumes "forEachIndex (updateFish ms d mp iw ih random) inds fishes = Some fishes'"
  shows "length fishes' = length fishes \<and> (j \<notin> set inds \<longrightarrow> fishes' ! j = fishes ! j)"
  using assms
proof (induction inds arbitrary: fishes)
  case Nil
  then show ?case by simp
next
  case (Cons i inds)
  obtain f1 where f1: "updateFish ms d mp iw ih random i fishes = Some f1"
    using updateFish_total by blast
  with Cons.prems have rest: "forEachIndex (updateFish ms d mp iw ih random) inds f1 = Some fishes'"
    by simp
  from Cons.IH [OF rest] updateFish_frame [OF f1, of j] show ?case by auto
qed

lemma forEachIndex_upt:
  assumes "forEachIndex (updateFish ms d mp iw ih random) [k ..< length fishes] fishes = Some fishes'"
    and "k \<le> i" and "i < length fishes"
  shows "\<exists>after. updateFish ms d mp iw ih random i (take i fishes' @ drop i fishes) = Some after \<and>
           fishes' ! i = after ! i"
  using assms
proof (induction "length fishes - k" arbitrary: k fishes)
  case 0
  then show ?case by simp
next
  case (Suc n)
  from Suc.prems have kn: "k < length fishes" by simp
  then have upt: "[k ..< length fishes] = k # [Suc k ..< length fishes]"
    by (simp add: upt_conv_Cons)
  obtain f1 where f1: "updateFish ms d mp iw ih random k fishes = Some f1"
    using updateFish_total by blast
  from updateFish_frame [OF f1] have len1: "length f1 = length fishes"
    and same1: "\<And>j. j \<noteq> k \<Longrightarrow> f1 ! j = fishes ! j" by simp_all
  from Suc.prems(1) f1 have rest:
    "forEachIndex (updateFish ms d mp iw ih random) [Suc k ..< length f1] f1 = Some fishes'"
    by (simp add: upt len1)
  from forEachIndex_frame [OF rest] have len': "length fishes' = length fishes"
    and same': "\<And>j. j \<le> k \<Longrightarrow> fishes' ! j = f1 ! j" by (simp_all add: len1)
  show ?case
  proof (cases "i = k")
    case True
    have "take k fishes' = take k fishes"
      using kn len' same' same1 by (intro nth_take_lemma) auto
    then have "take i fishes' @ drop i fishes = fishes" using True by simp
    with f1 same' [of k] True show ?thesis by simp
  next
    case False
    with Suc.prems have ki: "Suc k \<le> i" "i < length f1" by (simp_all add: len1)
    have n: "n = length f1 - Suc k" using Suc.hyps(2) len1 by simp
    from Suc.hyps(1) [OF n rest ki] obtain after where
      a: "updateFish ms d mp iw ih random i (take i fishes' @ drop i f1) = Some after"
        "fishes' ! i = after ! i" by blast
    have "drop i f1 = drop i fishes"
      using ki same1 by (auto simp: list_eq_iff_nth_eq len1)
    with a show ?thesis by auto
  qed
qed

lemma flock_pass:
  assumes "i < length fishes"
  shows "\<exists>fishes'. forEachIndex (updateFish ms d mp iw ih random) [0 ..< length fishes] fishes
            = Some fishes' \<and> length fishes' = length fishes \<and>
          (case mesh (fishes ! i) of
             None \<Rightarrow> fishes' ! i = fishes ! i
           | Some m \<Rightarrow>
               stepFish ms d m (fishes ! i) (take i fishes' @ drop i fishes) mp iw ih (random i)
                 = Some (fishes' ! i))"
proof -
  obtain fishes' where
    run: "forEachIndex (updateFish ms d mp iw ih random) [0 ..< length fishes] fishes = Some fishes'"
    using forEachIndex_total by blast
  have len: "length fishes' = length fishes"
    using forEachIndex_frame [OF run] by simp
  define before where "before = take i fishes' @ drop i fishes"
  have bi: "before ! i = fishes ! i" and bl: "length before = length fishes"
    using assms len by (simp_all add: before_def nth_append)
  from forEachIndex_upt [OF run _ assms] obtain after where
    a: "updateFish ms d mp iw ih random i before = Some after" "fishes' ! i = after ! i"
    unfolding before_def by blast
  have "case mesh (fishes ! i) of
          None \<Rightarrow> fishes' ! i = fishes ! i
        | Some m \<Rightarrow> stepFish ms d m (fishes ! i) before mp iw ih (random i) = Some (fishes' ! i)"
  proof (cases "mesh (fishes ! i)")
    case None
    then have "mesh (before ! i) = None" using bi by simp
    from updateFish_null [OF this, of ms d mp iw ih random] a bi show ?thesis
      using None by simp
  next
    case (Some m)
    then have "mesh (before ! i) = Some m" using bi by simp
    from updateFish_mesh [OF this, of ms d mp iw ih random] obtain fish' where
      s: "stepFish ms d m (before ! i) before mp iw ih (random i) = Some fish'"
      and u: "updateFish ms d mp iw ih random i before = Some (before[i := fish'])"
      by blast
    from u a(1) have "after = before[i := fish']" by simp
    then have "fishes' ! i = fish'" using a(2) bl assms by simp
    with s bi Some show ?thesis by simp
  qed
  with run len show ?thesis unfolding before_def by blast
qed

section \<open>Speed\<close>

lemma flock_speed:
  assumes "0 \<le> ms" "0 \<le> d" "i < length fishes" "mesh (fishes ! i) \<noteq> None"
  shows "\<exists>fishes'. forEachIndex (updateFish ms d mp iw ih random) [0 ..< length fishes] fishes
            = Some fishes' \<and> length_v (velocity (fishes' ! i)) \<le> d * ms"
proof -
  from assms(4) obtain m where m: "mesh (fishes ! i) = Some m" by auto
  from flock_pass [OF assms(3), of ms d mp iw ih random] m obtain fishes' where
    run: "forEachIndex (updateFish ms d mp iw ih random) [0 ..< length fishes] fishes = Some fishes'"
    and s: "stepFish ms d m (fishes ! i) (take i fishes' @ drop i fishes) mp iw ih (random i)
              = Some (fishes' ! i)"
    by auto
  from stepFish_speed [OF assms(1,2) s] run show ?thesis by blast
qed

lemma stepFish_speed_total:
  assumes "0 \<le> ms" "0 \<le> d"
  shows "\<exists>fish'. stepFish ms d m fish fishes mp iw ih r = Some fish' \<and>
           length_v (velocity fish') \<le> d * ms"
proof -
  obtain fish' where s: "stepFish ms d m fish fishes mp iw ih r = Some fish'"
    using stepFish_total by blast
  from stepFish_speed [OF assms s] s show ?thesis by blast
qed

text \<open>
  Claim C1, as amended. For every fish that has a mesh, once its integration is complete
  (force and jitter added, speed capped, damping applied, boundaries reflected) its speed
  is at most \<open>maxSpeed\<close>: 5 in \<^verbatim>\<open>updateFishAnimation\<close>, 3 in \<^verbatim>\<open>animate\<close>. The integration
  always completes, and the bound holds after each pass over the array for every fish
  with a mesh.
\<close>

theorem speed_within_maxSpeed:
  "(\<exists>fish'. stepFish 5 0.98 m fish fishes mp iw ih r = Some fish' \<and>
       length_v (velocity fish') \<le> 5) \<and>
   (\<exists>fish'. stepFish 3 0.99 m fish fishes mp iw ih r = Some fish' \<and>
       length_v (velocity fish') \<le> 3) \<and>
   (i < length fishes \<and> mesh (fishes ! i) \<noteq> None \<longrightarrow>
      (\<exists>fishes'. updateFishAnimation fishes mp iw ih random = Some fishes' \<and>
         length_v (velocity (fishes' ! i)) \<le> 5) \<and>
      (\<exists>fishes'. animateFishes fishes mp iw ih random = Some fishes' \<and>
         length_v (velocity (fishes' ! i)) \<le> 3))"
proof (intro conjI impI)
  show "\<exists>fish'. stepFish 5 0.98 m fish fishes mp iw ih r = Some fish' \<and>
       length_v (velocity fish') \<le> 5"
    using stepFish_speed_total [of 5 "0.98" m fish fishes mp iw ih r] by auto
  show "\<exists>fish'. stepFish 3 0.99 m fish fishes mp iw ih r = Some fish' \<and>
       length_v (velocity fish') \<le> 3"
    using stepFish_speed_total [of 3 "0.99" m fish fishes mp iw ih r] by auto
next
  assume a: "i < length fishes \<and> mesh (fishes ! i) \<noteq> None"
  then show "\<exists>fishes'. updateFishAnimation fishes mp iw ih random = Some fishes' \<and>
         length_v (velocity (fishes' ! i)) \<le> 5"
    using flock_speed [of 5 "0.98" i fishes mp iw ih random]
    by (auto simp: updateFishAnimation_def)
  from a show "\<exists>fishes'. animateFishes fishes mp iw ih random = Some fishes' \<and>
         length_v (velocity (fishes' ! i)) \<le> 3"
    using flock_speed [of 3 "0.99" i fishes mp iw ih random]
    by (auto simp: animateFishes_def)
qed

theorem speed_within_maxSpeed_witness:
  "(\<exists>fishes'. updateFishAnimation [fastFish] pointer0 800 600 noJitter = Some fishes' \<and>
      length_v (velocity (fishes' ! 0)) \<le> 5) \<and>
   (\<exists>fishes'. animateFishes [fastFish] pointer0 800 600 noJitter = Some fishes' \<and>
      length_v (velocity (fishes' ! 0)) \<le> 3)"
  using speed_within_maxSpeed [of plainMesh fastFish "[fastFish]" pointer0 800 600
      "(0.5, 0.5, 0.5)" 0 noJitter]
  by (simp add: fastFish_def)

text \<open>
  Claim C1 as it stands fails: a fish without a mesh is skipped by the pass and keeps the
  velocity it had. Here a fish with speed 10 leaves \<^verbatim>\<open>updateFishAnimation\<close> with speed 10,
  above the cap 5.
\<close>

theorem skipped_fish_keeps_speed:
  "updateFishAnimation [strandedFish] pointer0 800 600 noJitter = Some [strandedFish] \<and>
   \<not> length_v (velocity ([strandedFish] ! 0)) \<le> 5"
  by (simp add: updateFishAnimation_def updateFish_def strandedFish_def length_v_def less_sqrt_iff)

section \<open>Damping\<close>

text \<open>
  Claim C9, as amended. Damping (0.98, or 0.99 in \<^verbatim>\<open>animate\<close>) comes after the cap and the
  reflection only multiplies a component by -0.8, so at the end of its integration the
  speed of a fish that has a mesh is at most damping times \<open>maxSpeed\<close>, which is strictly
  below \<open>maxSpeed\<close>, whatever the steering force and the jitter were. The bound holds after
  each pass for every fish with a mesh.
\<close>

theorem speed_below_damped_cap:
  "(\<exists>fish'. stepFish 5 0.98 m fish fishes mp iw ih r = Some fish' \<and>
       length_v (velocity fish') \<le> 0.98 * 5 \<and> length_v (velocity fish') < 5) \<and>
   (\<exists>fish'. stepFish 3 0.99 m fish fishes mp iw ih r = Some fish' \<and>
       length_v (velocity fish') \<le> 0.99 * 3 \<and> length_v (velocity fish') < 3) \<and>
   (i < length fishes \<and> mesh (fishes ! i) \<noteq> None \<longrightarrow>
      (\<exists>fishes'. updateFishAnimation fishes mp iw ih random = Some fishes' \<and>
         length_v (velocity (fishes' ! i)) \<le> 0.98 * 5 \<and>
         length_v (velocity (fishes' ! i)) < 5) \<and>
      (\<exists>fishes'. animateFishes fishes mp iw ih random = Some fishes' \<and>
         length_v (velocity (fishes' ! i)) \<le> 0.99 * 3 \<and>
         length_v (velocity (fishes' ! i)) < 3))"
proof (intro conjI impI)
  show "\<exists>fish'. stepFish 5 0.98 m fish fishes mp iw ih r = Some fish' \<and>
       length_v (velocity fish') \<le> 0.98 * 5 \<and> length_v (velocity fish') < 5"
    using stepFish_speed_total [of 5 "0.98" m fish fishes mp iw ih r] by auto
  show "\<exists>fish'. stepFish 3 0.99 m fish fishes mp iw ih r = Some fish' \<and>
       length_v (velocity fish') \<le> 0.99 * 3 \<and> length_v (velocity fish') < 3"
    using stepFish_speed_total [of 3 "0.99" m fish fishes mp iw ih r] by auto
next
  assume a: "i < length fishes \<and> mesh (fishes ! i) \<noteq> None"
  then show "\<exists>fishes'. updateFishAnimation fishes mp iw ih random = Some fishes' \<and>
         length_v (velocity (fishes' ! i)) \<le> 0.98 * 5 \<and>
         length_v (velocity (fishes' ! i)) < 5"
    using flock_speed [of 5 "0.98" i fishes mp iw ih random]
    by (auto simp: updateFishAnimation_def)
  from a show "\<exists>fishes'. animateFishes fishes mp iw ih random = Some fishes' \<and>
         length_v (velocity (fishes' ! i)) \<le> 0.99 * 3 \<and>
         length_v (velocity (fishes' ! i)) < 3"
    using flock_speed [of 3 "0.99" i fishes mp iw ih random]
    by (auto simp: animateFishes_def)
qed

theorem speed_below_damped_cap_witness:
  "(\<exists>fishes'. updateFishAnimation [fastFish] pointer0 800 600 noJitter = Some fishes' \<and>
      length_v (velocity (fishes' ! 0)) \<le> 0.98 * 5 \<and> length_v (velocity (fishes' ! 0)) < 5) \<and>
   (\<exists>fishes'. animateFishes [fastFish] pointer0 800 600 noJitter = Some fishes' \<and>
      length_v (velocity (fishes' ! 0)) \<le> 0.99 * 3 \<and> length_v (velocity (fishes' ! 0)) < 3)"
  using speed_below_damped_cap [of plainMesh fastFish "[fastFish]" pointer0 800 600
      "(0.5, 0.5, 0.5)" 0 noJitter]
  by (simp add: fastFish_def)

text \<open>
  Claim C9 as it stands fails: a fish without a mesh is skipped by the pass, so neither
  the cap nor the damping reach it. Here a fish with speed 10 ends the pass with speed 10,
  above \<open>0.98 * 5\<close> and above the cap itself.
\<close>

theorem skipped_fish_above_damped_cap:
  "updateFishAnimation [strandedFish] pointer0 800 600 noJitter = Some [strandedFish] \<and>
   \<not> length_v (velocity ([strandedFish] ! 0)) \<le> 0.98 * 5 \<and>
   \<not> length_v (velocity ([strandedFish] ! 0)) < 5"
  by (simp add: updateFishAnimation_def updateFish_def strandedFish_def length_v_def less_sqrt_iff
      le_sqrt_iff)

section \<open>Bounds\<close>

lemma flock_bounds:
  assumes "i < length fishes" "mesh (fishes ! i) \<noteq> None"
  shows "\<exists>fishes'. forEachIndex (updateFish ms d mp iw ih random) [0 ..< length fishes] fishes
            = Some fishes' \<and> withinBounds (real iw / 2) (real ih / 2) (position (fishes' ! i))"
proof -
  from assms(2) obtain m where m: "mesh (fishes ! i) = Some m" by auto
  from flock_pass [OF assms(1), of ms d mp iw ih random] m obtain fishes' where
    run: "forEachIndex (updateFish ms d mp iw ih random) [0 ..< length fishes] fishes = Some fishes'"
    and s: "stepFish ms d m (fishes ! i) (take i fishes' @ drop i fishes) mp iw ih (random i)
              = Some (fishes' ! i)"
    by auto
  from stepFish_bounds [OF s] run show ?thesis
    by (auto simp: withinBounds_def)
qed

text \<open>
  Claim C2, as amended. After a pass with a fixed viewport, every fish that has a mesh lies
  within the bounds: \<open>x\<close> within half the width, \<open>y\<close> within half the height, \<open>z\<close> within
  100 of the origin.
\<close>

theorem updated_fish_within_bounds:
  assumes "i < length fishes" and "mesh (fishes ! i) \<noteq> None"
  shows "(\<exists>fishes'. updateFishAnimation fishes mp iw ih random = Some fishes' \<and>
            withinBounds (real iw / 2) (real ih / 2) (position (fishes' ! i))) \<and>
         (\<exists>fishes'. animateFishes fishes mp iw ih random = Some fishes' \<and>
            withinBounds (real iw / 2) (real ih / 2) (position (fishes' ! i)))"
  using flock_bounds [OF assms, where ms = 5 and d = "0.98" and mp = mp and iw = iw and ih = ih
      and random = random]
    flock_bounds [OF assms, where ms = 3 and d = "0.99" and mp = mp and iw = iw and ih = ih
      and random = random]
  by (simp add: updateFishAnimation_def animateFishes_def)

theorem updated_fish_within_bounds_witness:
  "(\<exists>fishes'. updateFishAnimation [strandedFish, fastFish] pointer0 800 600 noJitter = Some fishes' \<and>
      withinBounds (800 / 2) (600 / 2) (position (fishes' ! 1))) \<and>
   (\<exists>fishes'. animateFishes [strandedFish, fastFish] pointer0 800 600 noJitter = Some fishes' \<and>
      withinBounds (800 / 2) (600 / 2) (position (fishes' ! 1)))"
  using updated_fish_within_bounds [of 1 "[strandedFish, fastFish]" pointer0 800 600 noJitter]
  by (simp add: fastFish_def)

text \<open>
  Claim C2 as it stands fails: a fish without a mesh is skipped and keeps the position it
  had, inside the bounds or not. Here a fish at \<open>x = 1000\<close> stays there in a viewport 800
  wide.
\<close>

theorem skipped_fish_out_of_bounds:
  "updateFishAnimation [strandedFish] pointer0 800 600 noJitter = Some [strandedFish] \<and>
   \<not> withinBounds (800 / 2) (600 / 2) (position ([strandedFish] ! 0))"
  by (simp add: updateFishAnimation_def updateFish_def strandedFish_def withinBounds_def)

section \<open>Stars\<close>

text \<open>
  Claim C6. One advance of a star adds 0.02 to its twinkle phase and then sets its opacity
  to the base opacity plus a tenth of the sine of the new phase; a star with base opacity
  0.3 and phase 0 ends with opacity \<open>0.3 + sin 0.02 * 0.1\<close>. \<^verbatim>\<open>drawStars\<close> advances every
  star when it has a drawing context.
\<close>

theorem star_advance:
  "twinklePhase (advanceStar star) = twinklePhase star + 0.02 \<and>
   opacity (advanceStar star) = baseOpacity star + sin (twinklePhase star + 0.02) * 0.1 \<and>
   baseOpacity (advanceStar star) = baseOpacity star \<and>
   opacity (advanceStar \<lparr>star_x = sx, star_y = sy, opacity = op, baseOpacity = 0.3,
              twinklePhase = 0\<rparr>) = 0.3 + sin 0.02 * 0.1 \<and>
   fst (drawStars (Some (canvas\<lparr>hasContext2d := True\<rparr>)) stars) = map advanceStar stars"
  by (simp add: advanceStar_def drawStars_def Let_def)

section \<open>Boundary reflection\<close>

lemma edge_force: "applyBoidRules edgeFish [edgeFish] pointer0 800 600 = Some zeroVector"
  by (simp add: applyBoidRules_def contributions_def neighborStep_def initialAccum_def
      mouseAttraction_def mousePos_def distanceTo_def edgeFish_def pointer0_def Let_def
      sqrt_less_iff add_def zeroVector_def)

lemma edge_fields:
  "position edgeFish = \<lparr>x = 399, y = 0, z = 0\<rparr>"
  "velocity edgeFish = \<lparr>x = 100 / 49, y = 0, z = 0\<rparr>"
  by (simp_all add: edgeFish_def)

lemma edge_pre:
  "preReflection 5 0.98 edgeFish [edgeFish] pointer0 800 600 (0.5, 0.5, 0.5)
     = Some (\<lparr>x = 401, y = 0, z = 0\<rparr>, \<lparr>x = 2, y = 0, z = 0\<rparr>)"
  by (simp add: preReflection_def edge_force edge_fields jitter_def capSpeed_def length_v_def
      add_def zeroVector_def multiplyScalar_def Let_def less_sqrt_iff)

lemma reflect_components:
  "x (fst (reflect hw hh (p, v))) = (if x p < - hw \<or> x p > hw then max (- hw) (min hw (x p)) else x p)"
  "y (fst (reflect hw hh (p, v))) = (if y p < - hh \<or> y p > hh then max (- hh) (min hh (y p)) else y p)"
  "z (fst (reflect hw hh (p, v))) = (if z p < - 100 \<or> z p > 100 then max (- 100) (min 100 (z p)) else z p)"
  "x (snd (reflect hw hh (p, v))) = (if x p < - hw \<or> x p > hw then x v * (- 0.8) else x v)"
  "y (snd (reflect hw hh (p, v))) = (if y p < - hh \<or> y p > hh then y v * (- 0.8) else y v)"
  "z (snd (reflect hw hh (p, v))) = (if z p < - 100 \<or> z p > 100 then z v * (- 0.8) else z v)"
  by (simp_all add: reflect_def Let_def split: prod.splits)

text \<open>
  Claim C3. With \<open>(p, v)\<close> the position and velocity of a fish just after
  \<^verbatim>\<open>position += velocity\<close>: on each axis, independently of the other two, a position
  component outside its bounds has the velocity component multiplied by -0.8 and is
  clamped into the bounds (half the width for \<open>x\<close>, half the height for \<open>y\<close>, 100 for
  \<open>z\<close>). A fish that crosses \<open>x = halfWidth\<close> with velocity component 2 ends the step
  with velocity component -1.6 at \<open>x = halfWidth\<close>.
\<close>

theorem boundary_reflection:
  "\<exists>p v fish'.
       preReflection maxSpeed damping fish fishes mp iw ih r = Some (p, v) \<and>
       stepFish maxSpeed damping m fish fishes mp iw ih r = Some fish' \<and>
       (x p < - (real iw / 2) \<or> x p > real iw / 2 \<longrightarrow>
          x (velocity fish') = x v * (- 0.8) \<and>
          x (position fish') = max (- (real iw / 2)) (min (real iw / 2) (x p)) \<and>
          - (real iw / 2) \<le> x (position fish') \<and> x (position fish') \<le> real iw / 2) \<and>
       (y p < - (real ih / 2) \<or> y p > real ih / 2 \<longrightarrow>
          y (velocity fish') = y v * (- 0.8) \<and>
          y (position fish') = max (- (real ih / 2)) (min (real ih / 2) (y p)) \<and>
          - (real ih / 2) \<le> y (position fish') \<and> y (position fish') \<le> real ih / 2) \<and>
       (z p < - 100 \<or> z p > 100 \<longrightarrow>
          z (velocity fish') = z v * (- 0.8) \<and>
          z (position fish') = max (- 100) (min 100 (z p)) \<and>
          - 100 \<le> z (position fish') \<and> z (position fish') \<le> 100) \<and>
       (x p > real iw / 2 \<and> x v = 2 \<longrightarrow>
          x (velocity fish') = - 1.6 \<and> x (position fish') = real iw / 2)"
proof -
  obtain fish' where s: "stepFish maxSpeed damping m fish fishes mp iw ih r = Some fish'"
    using stepFish_total by blast
  then obtain pv where pv: "preReflection maxSpeed damping fish fishes mp iw ih r = Some pv"
    and p': "position fish' = fst (reflect (real iw / 2) (real ih / 2) pv)"
    and v': "velocity fish' = snd (reflect (real iw / 2) (real ih / 2) pv)"
    by (rule stepFish_result)
  obtain p v where "pv = (p, v)" by (cases pv) auto
  then have pre: "preReflection maxSpeed damping fish fishes mp iw ih r = Some (p, v)"
    and pos: "position fish' = fst (reflect (real iw / 2) (real ih / 2) (p, v))"
    and vel: "velocity fish' = snd (reflect (real iw / 2) (real ih / 2) (p, v))"
    using pv p' v' by simp_all
  have hw: "0 \<le> real iw / 2" and hh: "0 \<le> real ih / 2" by simp_all
  have ax: "x p < - (real iw / 2) \<or> x p > real iw / 2 \<longrightarrow>
        x (velocity fish') = x v * (- 0.8) \<and>
        x (position fish') = max (- (real iw / 2)) (min (real iw / 2) (x p)) \<and>
        - (real iw / 2) \<le> x (position fish') \<and> x (position fish') \<le> real iw / 2"
    using hw by (simp add: pos vel reflect_components)
  have ay: "y p < - (real ih / 2) \<or> y p > real ih / 2 \<longrightarrow>
        y (velocity fish') = y v * (- 0.8) \<and>
        y (position fish') = max (- (real ih / 2)) (min (real ih / 2) (y p)) \<and>
        - (real ih / 2) \<le> y (position fish') \<and> y (position fish') \<le> real ih / 2"
    using hh by (simp add: pos vel reflect_components)
  have az: "z p < - 100 \<or> z p > 100 \<longrightarrow>
        z (velocity fish') = z v * (- 0.8) \<and>
        z (position fish') = max (- 100) (min 100 (z p)) \<and>
        - 100 \<le> z (position fish') \<and> z (position fish') \<le> 100"
    by (simp add: pos vel reflect_components)
  have ex: "x p > real iw / 2 \<and> x v = 2 \<longrightarrow>
        x (velocity fish') = - 1.6 \<and> x (position fish') = real iw / 2"
    using hw by (simp add: pos vel reflect_components)
  from pre s ax ay az ex show ?thesis by blast
qed

theorem boundary_reflection_witness:
  "\<exists>fish'. stepFish 5 0.98 plainMesh edgeFish [edgeFish] pointer0 800 600 (0.5, 0.5, 0.5) = Some fish' \<and>
     x (velocity fish') = - 1.6 \<and> x (position fish') = 800 / 2"
proof -
  from boundary_reflection [of 5 "0.98" edgeFish "[edgeFish]" pointer0 800 600 "(0.5, 0.5, 0.5)"
      plainMesh]
  obtain p v fish' where
    pre: "preReflection 5 0.98 edgeFish [edgeFish] pointer0 800 600 (0.5, 0.5, 0.5) = Some (p, v)"
    and s: "stepFish 5 0.98 plainMesh edgeFish [edgeFish] pointer0 800 600 (0.5, 0.5, 0.5) = Some fish'"
    and ex: "x p > real (800::nat) / 2 \<and> x v = 2 \<longrightarrow>
        x (velocity fish') = - 1.6 \<and> x (position fish') = real (800::nat) / 2"
    by blast
  from pre edge_pre have "p = \<lparr>x = 401, y = 0, z = 0\<rparr>" and "v = \<lparr>x = 2, y = 0, z = 0\<rparr>"
    by simp_all
  with ex have "x (velocity fish') = - 1.6 \<and> x (position fish') = 800 / 2" by simp
  with s show ?thesis by blast
qed

section \<open>The steering force against the specification\<close>

lemma add_zero_left: "add zeroVector v = v"
  by (simp add: add_def zeroVector_def)

lemma add_zero_right: "add v zeroVector = v"
  by (simp add: add_def zeroVector_def)

lemma add_assoc: "add (add a b) c = add a (add b c)"
  by (simp add: add_def)

lemma multiplyScalar_one: "multiplyScalar v 1 = v"
  by (simp add: multiplyScalar_def)

lemma spec_sum_Nil: "spec_sum [] = zeroVector"
  by (simp add: spec_sum_def zeroVector_def)

lemma spec_sum_Cons: "spec_sum (v # vs) = add v (spec_sum vs)"
  by (simp add: spec_sum_def add_def)

lemma normalize_v_spec: "normalize_v v = Some (spec_unit v)"
  by (simp add: normalize_v_Some spec_unit_def multiplyScalar_one)

lemma length_v_subVectors: "length_v (subVectors a b) = distanceTo a b"
  by (simp add: length_v_def subVectors_def distanceTo_def Let_def)

lemma distanceTo_sym: "distanceTo a b = distanceTo b a"
proof -
  have "\<And>s t :: real. (s - t) * (s - t) = (t - s) * (t - s)" by (simp add: algebra_simps)
  then show ?thesis by (simp add: distanceTo_def Let_def)
qed

text \<open>What one neighbour does to the accumulators.\<close>

lemma neighborStep_spec:
  "neighborStep fish n acc = Some
     \<lparr>separation = add (separation acc) (spec_sum (map (spec_repulsion fish) (spec_separating fish [n]))),
      alignment = add (alignment acc) (spec_sum (map velocity (spec_within 80 fish [n]))),
      cohesion = add (cohesion acc) (spec_sum (map position (spec_within 120 fish [n]))),
      separationCount = separationCount acc + length (spec_separating fish [n]),
      alignmentCount = alignmentCount acc + length (spec_within 80 fish [n]),
      cohesionCount = cohesionCount acc + length (spec_within 120 fish [n])\<rparr>"
  by (simp add: neighborStep_def Let_def normalize_v_spec divideScalar_def spec_separating_def
      spec_within_def spec_others_def spec_repulsion_def spec_sum_Nil spec_sum_Cons add_zero_right)

lemma spec_sum_append: "spec_sum (as @ bs) = add (spec_sum as) (spec_sum bs)"
  by (simp add: spec_sum_def add_def)

lemma spec_separating_Cons:
  "spec_separating fish (n # ns) = spec_separating fish [n] @ spec_separating fish ns"
  by (simp add: spec_separating_def spec_others_def)

lemma spec_within_Cons:
  "spec_within radius fish (n # ns) = spec_within radius fish [n] @ spec_within radius fish ns"
  by (simp add: spec_within_def spec_others_def)

lemma forEachNeighbor_spec:
  "forEachNeighbor fish ns acc = Some
     \<lparr>separation = add (separation acc) (spec_sum (map (spec_repulsion fish) (spec_separating fish ns))),
      alignment = add (alignment acc) (spec_sum (map velocity (spec_within 80 fish ns))),
      cohesion = add (cohesion acc) (spec_sum (map position (spec_within 120 fish ns))),
      separationCount = separationCount acc + length (spec_separating fish ns),
      alignmentCount = alignmentCount acc + length (spec_within 80 fish ns),
      cohesionCount = cohesionCount acc + length (spec_within 120 fish ns)\<rparr>"
proof (induction ns arbitrary: acc)
  case Nil
  show ?case
    by (simp add: spec_separating_def spec_within_def spec_others_def spec_sum_Nil add_zero_right)
next
  case (Cons n ns)
  show ?case
    by (simp add: neighborStep_spec Cons.IH spec_separating_Cons [of fish n ns]
        spec_within_Cons [of _ fish n ns] spec_sum_append add_assoc)
qed

lemma mouseAttraction_spec:
  "mouseAttraction fish mp iw ih = Some (spec_pointerAttraction fish mp (real iw / 2) (real ih / 2))"
proof -
  have "mousePos mp iw ih = spec_pointer mp (real iw / 2) (real ih / 2)"
    by (simp add: mousePos_def spec_pointer_def)
  moreover have "length_v (subVectors (spec_pointer mp (real iw / 2) (real ih / 2)) (position fish))
      = distanceTo (position fish) (spec_pointer mp (real iw / 2) (real ih / 2))"
    by (simp add: length_v_subVectors distanceTo_sym)
  ultimately show ?thesis
    by (simp add: mouseAttraction_def spec_pointerAttraction_def Let_def normalize_v_spec
        spec_unit_def)
qed

lemma contributions_spec:
  "contributions fish neighbors mp iw ih = Some
     \<lparr>c_separation = spec_separation fish neighbors,
      c_alignment = spec_alignment fish neighbors,
      c_cohesion = spec_cohesion fish neighbors,
      c_mouseAttraction = spec_pointerAttraction fish mp (real iw / 2) (real ih / 2)\<rparr>"
  by (simp add: contributions_def forEachNeighbor_spec mouseAttraction_spec initialAccum_def
      add_zero_left divideScalar_def normalize_v_spec spec_separation_def spec_alignment_def
      spec_cohesion_def Let_def spec_sum_Nil)

lemma multiplyScalar_twice: "multiplyScalar (multiplyScalar v s) t = multiplyScalar v (s * t)"
  by (simp add: multiplyScalar_def)

text \<open>
  Claim C4. The separation contribution of \<^verbatim>\<open>applyBoidRules\<close> is the one the
  specification words: over the other agents at a distance below 50 and above 0, the sum of
  the unit vectors from the neighbour towards the agent, each divided by the distance;
  averaged over these neighbours, normalized, scaled by 0.5. What one such neighbour adds
  to the accumulator is a positive multiple of the vector from the neighbour to the agent.
\<close>

theorem separation_contribution:
  "(\<exists>c. contributions fish neighbors mp iw ih = Some c \<and>
        c_separation c = spec_separation fish neighbors) \<and>
   (fish_id n \<noteq> fish_id fish \<and> distanceTo (position fish) (position n) < 50 \<and>
    0 < distanceTo (position fish) (position n) \<longrightarrow>
      (\<exists>acc'. neighborStep fish n acc = Some acc' \<and>
         separation acc' = add (separation acc)
           (multiplyScalar (subVectors (position fish) (position n))
              (1 / (distanceTo (position fish) (position n) * distanceTo (position fish) (position n)))) \<and>
         separationCount acc' = separationCount acc + 1) \<and>
      0 < 1 / (distanceTo (position fish) (position n) * distanceTo (position fish) (position n)))"
proof (intro conjI impI)
  show "\<exists>c. contributions fish neighbors mp iw ih = Some c \<and>
        c_separation c = spec_separation fish neighbors"
    by (simp add: contributions_spec)
next
  assume q: "fish_id n \<noteq> fish_id fish \<and> distanceTo (position fish) (position n) < 50 \<and>
    0 < distanceTo (position fish) (position n)"
  then have near: "spec_separating fish [n] = [n]"
    by (simp add: spec_separating_def spec_others_def)
  from q have "length_v (subVectors (position fish) (position n)) \<noteq> 0"
    by (simp add: length_v_subVectors)
  then have "spec_repulsion fish n = multiplyScalar (subVectors (position fish) (position n))
      (1 / (distanceTo (position fish) (position n) * distanceTo (position fish) (position n)))"
    by (simp add: spec_repulsion_def spec_unit_def multiplyScalar_twice length_v_subVectors)
  then show "\<exists>acc'. neighborStep fish n acc = Some acc' \<and>
         separation acc' = add (separation acc)
           (multiplyScalar (subVectors (position fish) (position n))
              (1 / (distanceTo (position fish) (position n) * distanceTo (position fish) (position n)))) \<and>
         separationCount acc' = separationCount acc + 1"
    by (simp add: neighborStep_spec near spec_sum_Cons spec_sum_Nil add_zero_right)
  from q show "0 < 1 / (distanceTo (position fish) (position n) * distanceTo (position fish) (position n))"
    by simp
qed

lemma origin_near_distance: "distanceTo (position originFish) (position nearFish) = 10"
  by (simp add: distanceTo_def originFish_def nearFish_def zeroVector_def Let_def real_sqrt_unique)

lemma origin_near_separating: "spec_separating originFish [originFish, nearFish] = [nearFish]"
proof -
  have "fish_id nearFish \<noteq> fish_id originFish" by (simp add: nearFish_def originFish_def)
  then show ?thesis
    by (simp add: spec_separating_def spec_others_def origin_near_distance)
qed

lemma origin_near_repulsion: "spec_repulsion originFish nearFish = \<lparr>x = - 0.1, y = 0, z = 0\<rparr>"
proof -
  have diff: "subVectors (position originFish) (position nearFish) = \<lparr>x = - 10, y = 0, z = 0\<rparr>"
    by (simp add: subVectors_def originFish_def nearFish_def zeroVector_def)
  have "length_v \<lparr>x = - 10, y = 0, z = 0\<rparr> = 10"
    by (simp add: length_v_def real_sqrt_unique)
  then show ?thesis
    by (simp add: spec_repulsion_def origin_near_distance diff spec_unit_def multiplyScalar_def)
qed

lemma origin_near_separation:
  "spec_separation originFish [originFish, nearFish] = \<lparr>x = - 0.5, y = 0, z = 0\<rparr>"
proof -
  have "sqrt (1 / 100) = 1 / 10"
    by (rule real_sqrt_unique) (simp_all add: power2_eq_square)
  then have "length_v \<lparr>x = - (1 / 10), y = 0, z = 0\<rparr> = 1 / 10"
    by (simp add: length_v_def)
  then show ?thesis
    by (simp add: spec_separation_def origin_near_separating origin_near_repulsion spec_sum_def
        spec_unit_def multiplyScalar_def)
qed

theorem separation_contribution_witness:
  "(\<exists>c. contributions originFish [originFish, nearFish] pointer0 800 600 = Some c \<and>
        c_separation c = \<lparr>x = - 0.5, y = 0, z = 0\<rparr>) \<and>
   (\<exists>acc'. neighborStep originFish nearFish initialAccum = Some acc' \<and>
        separation acc' = \<lparr>x = - 0.1, y = 0, z = 0\<rparr> \<and> separationCount acc' = 1)"
proof -
  have ids: "fish_id nearFish \<noteq> fish_id originFish"
    by (simp add: nearFish_def originFish_def)
  have diff: "subVectors (position originFish) (position nearFish) = \<lparr>x = - 10, y = 0, z = 0\<rparr>"
    by (simp add: subVectors_def originFish_def nearFish_def zeroVector_def)
  from separation_contribution [of originFish "[originFish, nearFish]" pointer0 800 600 nearFish
      initialAccum] ids
  show ?thesis
    by (simp add: origin_near_distance origin_near_separation diff initialAccum_def add_def
        zeroVector_def multiplyScalar_def)
qed

text \<open>
  Claim C5. The pointer is taken to the centred frame as
  \<open>(pointer.x - halfWidth, - (pointer.y - halfHeight), 0)\<close>; the attraction is the unit vector
  from the agent towards that point scaled by 0.3 when the distance is below 200 and above
  0, and the zero vector otherwise.
\<close>

theorem pointer_attraction:
  "(\<exists>c. contributions fish neighbors mp iw ih = Some c \<and>
        c_mouseAttraction c = spec_pointerAttraction fish mp (real iw / 2) (real ih / 2)) \<and>
   mousePos mp iw ih = \<lparr>x = mouse_x mp - real iw / 2, y = - (mouse_y mp - real ih / 2), z = 0\<rparr> \<and>
   length_v (spec_pointerAttraction fish mp (real iw / 2) (real ih / 2)) =
     (if distanceTo (position fish) (mousePos mp iw ih) < 200 \<and>
         0 < distanceTo (position fish) (mousePos mp iw ih) then 0.3 else 0)"
proof -
  have t: "spec_pointer mp (real iw / 2) (real ih / 2) = mousePos mp iw ih"
    by (simp add: mousePos_def spec_pointer_def)
  have l: "length_v (subVectors (mousePos mp iw ih) (position fish))
      = distanceTo (position fish) (mousePos mp iw ih)"
    by (simp add: length_v_subVectors distanceTo_sym)
  have "length_v (spec_pointerAttraction fish mp (real iw / 2) (real ih / 2)) =
     (if distanceTo (position fish) (mousePos mp iw ih) < 200 \<and>
         0 < distanceTo (position fish) (mousePos mp iw ih) then 0.3 else 0)"
    by (simp add: spec_pointerAttraction_def t Let_def length_v_multiplyScalar l)
       (simp add: length_v_def zeroVector_def)
  then show ?thesis
    by (simp add: contributions_spec mousePos_def)
qed

lemma contributions_empty:
  "(\<forall>n\<in>set neighbors. fish_id n \<noteq> fish_id fish \<longrightarrow>
       \<not> (distanceTo (position fish) (position n) < 50 \<and> 0 < distanceTo (position fish) (position n)))
     \<Longrightarrow> spec_separation fish neighbors = zeroVector"
  "(\<forall>n\<in>set neighbors. fish_id n \<noteq> fish_id fish \<longrightarrow>
       \<not> distanceTo (position fish) (position n) < 80)
     \<Longrightarrow> spec_alignment fish neighbors = zeroVector"
  "(\<forall>n\<in>set neighbors. fish_id n \<noteq> fish_id fish \<longrightarrow>
       \<not> distanceTo (position fish) (position n) < 120)
     \<Longrightarrow> spec_cohesion fish neighbors = zeroVector"
proof -
  assume "\<forall>n\<in>set neighbors. fish_id n \<noteq> fish_id fish \<longrightarrow>
       \<not> (distanceTo (position fish) (position n) < 50 \<and> 0 < distanceTo (position fish) (position n))"
  then have "spec_separating fish neighbors = []"
    by (auto simp: spec_separating_def spec_others_def filter_empty_conv)
  then show "spec_separation fish neighbors = zeroVector"
    by (simp add: spec_separation_def)
next
  assume "\<forall>n\<in>set neighbors. fish_id n \<noteq> fish_id fish \<longrightarrow>
       \<not> distanceTo (position fish) (position n) < 80"
  then have "spec_within 80 fish neighbors = []"
    by (auto simp: spec_within_def spec_others_def filter_empty_conv)
  then show "spec_alignment fish neighbors = zeroVector"
    by (simp add: spec_alignment_def)
next
  assume "\<forall>n\<in>set neighbors. fish_id n \<noteq> fish_id fish \<longrightarrow>
       \<not> distanceTo (position fish) (position n) < 120"
  then have "spec_within 120 fish neighbors = []"
    by (auto simp: spec_within_def spec_others_def filter_empty_conv)
  then show "spec_cohesion fish neighbors = zeroVector"
    by (simp add: spec_cohesion_def)
qed

text \<open>
  Claim C7. A rule with no qualifying neighbour contributes the zero vector, and the
  function still returns; an agent with no other agent nearer than 120 and the pointer at
  200 or more gets exactly the zero vector from \<^verbatim>\<open>applyBoidRules\<close>.
\<close>

theorem isolated_fish_no_force:
  "(\<exists>c. contributions fish neighbors mp iw ih = Some c \<and>
      ((\<forall>n\<in>set neighbors. fish_id n \<noteq> fish_id fish \<longrightarrow>
          \<not> (distanceTo (position fish) (position n) < 50 \<and>
             0 < distanceTo (position fish) (position n)))
        \<longrightarrow> c_separation c = zeroVector) \<and>
      ((\<forall>n\<in>set neighbors. fish_id n \<noteq> fish_id fish \<longrightarrow>
          \<not> distanceTo (position fish) (position n) < 80)
        \<longrightarrow> c_alignment c = zeroVector) \<and>
      ((\<forall>n\<in>set neighbors. fish_id n \<noteq> fish_id fish \<longrightarrow>
          \<not> distanceTo (position fish) (position n) < 120)
        \<longrightarrow> c_cohesion c = zeroVector) \<and>
      (\<not> (distanceTo (position fish) (mousePos mp iw ih) < 200 \<and>
           0 < distanceTo (position fish) (mousePos mp iw ih))
        \<longrightarrow> c_mouseAttraction c = zeroVector)) \<and>
   ((\<forall>n\<in>set neighbors. fish_id n \<noteq> fish_id fish \<longrightarrow>
        120 \<le> distanceTo (position fish) (position n)) \<and>
    200 \<le> distanceTo (position fish) (mousePos mp iw ih)
      \<longrightarrow> applyBoidRules fish neighbors mp iw ih = Some zeroVector)"
proof (intro conjI impI)
  have t: "spec_pointer mp (real iw / 2) (real ih / 2) = mousePos mp iw ih"
    by (simp add: mousePos_def spec_pointer_def)
  show "\<exists>c. contributions fish neighbors mp iw ih = Some c \<and>
      ((\<forall>n\<in>set neighbors. fish_id n \<noteq> fish_id fish \<longrightarrow>
          \<not> (distanceTo (position fish) (position n) < 50 \<and>
             0 < distanceTo (position fish) (position n)))
        \<longrightarrow> c_separation c = zeroVector) \<and>
      ((\<forall>n\<in>set neighbors. fish_id n \<noteq> fish_id fish \<longrightarrow>
          \<not> distanceTo (position fish) (position n) < 80)
        \<longrightarrow> c_alignment c = zeroVector) \<and>
      ((\<forall>n\<in>set neighbors. fish_id n \<noteq> fish_id fish \<longrightarrow>
          \<not> distanceTo (position fish) (position n) < 120)
        \<longrightarrow> c_cohesion c = zeroVector) \<and>
      (\<not> (distanceTo (position fish) (mousePos mp iw ih) < 200 \<and>
           0 < distanceTo (position fish) (mousePos mp iw ih))
        \<longrightarrow> c_mouseAttraction c = zeroVector)"
    using contributions_empty [of neighbors fish]
    by (simp add: contributions_spec spec_pointerAttraction_def t Let_def)
next
  assume far: "(\<forall>n\<in>set neighbors. fish_id n \<noteq> fish_id fish \<longrightarrow>
        120 \<le> distanceTo (position fish) (position n)) \<and>
    200 \<le> distanceTo (position fish) (mousePos mp iw ih)"
  have t: "spec_pointer mp (real iw / 2) (real ih / 2) = mousePos mp iw ih"
    by (simp add: mousePos_def spec_pointer_def)
  from far have "spec_separation fish neighbors = zeroVector"
    by (intro contributions_empty(1)) fastforce
  moreover from far have "spec_alignment fish neighbors = zeroVector"
    by (intro contributions_empty(2)) fastforce
  moreover from far have "spec_cohesion fish neighbors = zeroVector"
    by (intro contributions_empty(3)) fastforce
  moreover from far have "spec_pointerAttraction fish mp (real iw / 2) (real ih / 2) = zeroVector"
    by (simp add: spec_pointerAttraction_def t Let_def)
  ultimately show "applyBoidRules fish neighbors mp iw ih = Some zeroVector"
    by (simp add: applyBoidRules_def contributions_spec add_zero_left)
qed

theorem isolated_fish_no_force_witness:
  "applyBoidRules originFish [originFish, farFish] pointer0 800 600 = Some zeroVector"
proof -
  have "120 \<le> distanceTo (position originFish) (position farFish)"
    by (simp add: distanceTo_def originFish_def farFish_def zeroVector_def Let_def le_sqrt_iff)
  moreover have "200 \<le> distanceTo (position originFish) (mousePos pointer0 800 600)"
    by (simp add: distanceTo_def originFish_def mousePos_def pointer0_def zeroVector_def Let_def
        le_sqrt_iff)
  ultimately show ?thesis
    using isolated_fish_no_force [of originFish "[originFish, farFish]" pointer0 800 600]
    by simp
qed

text \<open>
  Claim C8, as amended. \<^verbatim>\<open>applyBoidRules\<close> never divides by zero: in exact arithmetic it
  returns a vector on every input. A neighbour at distance zero adds nothing to the
  separation accumulator, and a pointer at distance zero gives no attraction.
\<close>

theorem applyBoidRules_total:
  "(\<exists>force. applyBoidRules fish neighbors mp iw ih = Some force) \<and>
   (distanceTo (position fish) (position n) = 0 \<longrightarrow>
      (\<exists>acc'. neighborStep fish n acc = Some acc' \<and> separation acc' = separation acc \<and>
         separationCount acc' = separationCount acc)) \<and>
   (distanceTo (position fish) (mousePos mp iw ih) = 0 \<longrightarrow>
      mouseAttraction fish mp iw ih = Some zeroVector)"
proof (intro conjI impI)
  show "\<exists>force. applyBoidRules fish neighbors mp iw ih = Some force"
    by (rule applyBoidRules_Some)
next
  assume "distanceTo (position fish) (position n) = 0"
  then have "spec_separating fish [n] = []"
    by (simp add: spec_separating_def spec_others_def)
  then show "\<exists>acc'. neighborStep fish n acc = Some acc' \<and> separation acc' = separation acc \<and>
         separationCount acc' = separationCount acc"
    by (simp add: neighborStep_spec spec_sum_Nil add_zero_right)
next
  assume "distanceTo (position fish) (mousePos mp iw ih) = 0"
  then show "mouseAttraction fish mp iw ih = Some zeroVector"
    by (simp add: mouseAttraction_def Let_def)
qed

theorem applyBoidRules_total_witness:
  "(\<exists>force. applyBoidRules originFish [originFish, twinFish] pointerCentre 800 600 = Some force) \<and>
   (\<exists>acc'. neighborStep originFish twinFish initialAccum = Some acc' \<and>
      separation acc' = zeroVector \<and> separationCount acc' = 0) \<and>
   mouseAttraction originFish pointerCentre 800 600 = Some zeroVector"
proof -
  have "distanceTo (position originFish) (position twinFish) = 0"
    by (simp add: distanceTo_def originFish_def twinFish_def)
  moreover have "distanceTo (position originFish) (mousePos pointerCentre 800 600) = 0"
    by (simp add: distanceTo_def originFish_def mousePos_def pointerCentre_def zeroVector_def)
  ultimately show ?thesis
    using applyBoidRules_total [of originFish "[originFish, twinFish]" pointerCentre 800 600
        twinFish initialAccum]
    by (simp add: initialAccum_def)
qed

section \<open>Overflow in the steering force\<close>

lemma MAX_VALUE_large: "1000000 \<le> MAX_VALUE"
proof -
  have "(1::real) \<le> 2 - 1 / 2 ^ 52" by simp
  moreover have "(1000000::real) \<le> 2 ^ 20" by simp
  moreover have "(2::real) ^ 20 \<le> 2 ^ 1023" by (rule power_increasing) simp_all
  ultimately have "1000000 * 1 \<le> (2 ^ 1023) * (2 - 1 / 2 ^ 52 :: real)"
    by (intro mult_mono) simp_all
  then show ?thesis by (simp add: MAX_VALUE_def mult.commute)
qed

lemma overflow_small: "\<bar>r\<bar> \<le> 1000000 \<Longrightarrow> overflow r = Finite r"
  using MAX_VALUE_large by (auto simp: overflow_def)

lemma overflow_MAX: "overflow MAX_VALUE = Finite MAX_VALUE"
  using MAX_VALUE_large by (simp add: overflow_def)

lemma overflow_twice: "overflow (2 * MAX_VALUE) = Infinity True"
  using MAX_VALUE_large by (simp add: overflow_def)

lemma plus_n_NaN: "plus_n a NaN = NaN" "plus_n NaN b = NaN"
  by (cases a) simp_all

lemma huge_distance:
  "distanceTo_n (fromVector3 (position originFish)) (fromVector3 (position hugeFish1)) = Finite 60"
  "distanceTo_n (fromVector3 (position originFish)) (fromVector3 (position hugeFish2)) = Finite 60"
proof -
  have "sqrt 3600 = 60" by (simp add: real_sqrt_unique)
  then show
    "distanceTo_n (fromVector3 (position originFish)) (fromVector3 (position hugeFish1)) = Finite 60"
    "distanceTo_n (fromVector3 (position originFish)) (fromVector3 (position hugeFish2)) = Finite 60"
    by (simp_all add: distanceTo_n_def fromVector3_def originFish_def hugeFish1_def hugeFish2_def
        zeroVector_def minus_n_def Let_def overflow_small)
qed

lemma huge_alignment:
  "alignment_n (forEachNeighbor_n originFish [originFish, hugeFish1, hugeFish2] initialAccum_n)
     = \<lparr>x_n = Infinity True, y_n = Finite 0, z_n = Finite 0\<rparr> \<and>
   alignmentCount_n (forEachNeighbor_n originFish [originFish, hugeFish1, hugeFish2] initialAccum_n) = 2"
proof -
  have ids: "fish_id hugeFish1 \<noteq> fish_id originFish" "fish_id hugeFish2 \<noteq> fish_id originFish"
    by (simp_all add: hugeFish1_def hugeFish2_def originFish_def)
  have v: "fromVector3 (velocity hugeFish1) = \<lparr>x_n = Finite MAX_VALUE, y_n = Finite 0, z_n = Finite 0\<rparr>"
    "fromVector3 (velocity hugeFish2) = \<lparr>x_n = Finite MAX_VALUE, y_n = Finite 0, z_n = Finite 0\<rparr>"
    by (simp_all add: fromVector3_def hugeFish1_def hugeFish2_def)
  show ?thesis
    by (simp add: neighborStep_n_def ids huge_distance v Let_def initialAccum_n_def add_n_def
        zeroVector_n_def overflow_small overflow_MAX overflow_twice)
qed

lemma huge_alignment_NaN:
  "x_n (multiplyScalar_n
          (normalize_n (divideScalar_n \<lparr>x_n = Infinity True, y_n = Finite 0, z_n = Finite 0\<rparr>
             (Finite (real (2::nat))))) (Finite 0.1)) = NaN"
  by (simp add: multiplyScalar_n_def normalize_n_def divideScalar_n_def length_n_def
      overflow_small)

text \<open>
  Claim C8 as it stands fails: the result need not be a finite vector. Two neighbours 60
  away, each with the finite velocity component \<^verbatim>\<open>Number.MAX_VALUE\<close>, make the alignment sum
  overflow to infinity; its normalization multiplies infinity by \<open>1 / \<infinity> = 0\<close>, and the
  result has \<^verbatim>\<open>NaN\<close> as first component.
\<close>

theorem applyBoidRules_overflow:
  "x_n (applyBoidRules_n originFish [originFish, hugeFish1, hugeFish2] pointer0 800 600) = NaN \<and>
   \<not> finiteVector (applyBoidRules_n originFish [originFish, hugeFish1, hugeFish2] pointer0 800 600)"
proof -
  have "x_n (applyBoidRules_n originFish [originFish, hugeFish1, hugeFish2] pointer0 800 600) = NaN"
    using huge_alignment huge_alignment_NaN
    by (simp add: applyBoidRules_n_def Let_def add_n_def plus_n_NaN)
  then show ?thesis by (simp add: finiteVector_def)
qed

text \<open>On an ordinary input the second embedding gives what the first gives.\<close>

lemma applyBoidRules_n_isolated:
  "applyBoidRules_n originFish [originFish, farFish] pointer0 800 600 = zeroVector_n"
proof -
  have ids: "fish_id farFish \<noteq> fish_id originFish"
    by (simp add: farFish_def originFish_def)
  have s: "sqrt 90000 = 300" "sqrt 250000 = 500" by (simp_all add: real_sqrt_unique)
  have d: "distanceTo_n (fromVector3 (position originFish)) (fromVector3 (position farFish)) = Finite 300"
    by (simp add: distanceTo_n_def fromVector3_def originFish_def farFish_def
        zeroVector_def minus_n_def Let_def overflow_small s)
  have m: "distanceTo_n (fromVector3 (position originFish)) (mousePos_n pointer0 800 600) = Finite 500"
    by (simp add: distanceTo_n_def fromVector3_def originFish_def mousePos_n_def pointer0_def
        zeroVector_def minus_n_def Let_def overflow_small s)
  show ?thesis
    by (simp add: applyBoidRules_n_def neighborStep_n_def ids d m Let_def initialAccum_n_def
        add_n_def zeroVector_n_def overflow_small)
qed

section \<open>Fish without a mesh\<close>

lemma fast_force: "applyBoidRules fastFish [strandedFish, fastFish] pointer0 800 600 = Some zeroVector"
proof -
  have "120 \<le> distanceTo (position fastFish) (position strandedFish)"
    by (simp add: distanceTo_def fastFish_def strandedFish_def zeroVector_def Let_def le_sqrt_iff)
  moreover have "200 \<le> distanceTo (position fastFish) (mousePos pointer0 800 600)"
    by (simp add: distanceTo_def fastFish_def mousePos_def pointer0_def zeroVector_def Let_def
        le_sqrt_iff)
  moreover have "spec_pointer pointer0 (real 800 / 2) (real 600 / 2) = mousePos pointer0 800 600"
    by (simp add: mousePos_def spec_pointer_def)
  ultimately have "spec_separation fastFish [strandedFish, fastFish] = zeroVector"
    "spec_alignment fastFish [strandedFish, fastFish] = zeroVector"
    "spec_cohesion fastFish [strandedFish, fastFish] = zeroVector"
    "spec_pointerAttraction fastFish pointer0 (real 800 / 2) (real 600 / 2) = zeroVector"
    by (simp_all add: contributions_empty spec_pointerAttraction_def Let_def)
  then show ?thesis
    by (simp add: applyBoidRules_def contributions_spec add_zero_left)
qed

lemma fast_fields:
  "position fastFish = zeroVector" "velocity fastFish = \<lparr>x = 10, y = 0, z = 0\<rparr>"
  by (simp_all add: fastFish_def)

lemma fast_pre:
  "preReflection 5 0.98 fastFish [strandedFish, fastFish] pointer0 800 600 (0.5, 0.5, 0.5)
     = Some (\<lparr>x = 4.9, y = 0, z = 0\<rparr>, \<lparr>x = 4.9, y = 0, z = 0\<rparr>)"
proof -
  have "sqrt 100 = 10" by (simp add: real_sqrt_unique)
  then show ?thesis
    by (simp add: preReflection_def fast_force fast_fields jitter_def capSpeed_def length_v_def
        normalize_v_Some add_def zeroVector_def multiplyScalar_def Let_def)
qed

lemma fast_step:
  "stepFish 5 0.98 plainMesh fastFish [strandedFish, fastFish] pointer0 800 600 (0.5, 0.5, 0.5)
     = Some (fastFish\<lparr>position := \<lparr>x = 4.9, y = 0, z = 0\<rparr>, velocity := \<lparr>x = 4.9, y = 0, z = 0\<rparr>,
         mesh := Some \<lparr>mesh_position = \<lparr>x = 4.9, y = 0, z = 0\<rparr>,
                       orientation = LookAt_rotateY \<lparr>x = 5.9, y = 0, z = 0\<rparr> (- pi / 2)\<rparr>\<rparr>)"
proof -
  have r: "reflect (real 800 / 2) (real 600 / 2) (\<lparr>x = 4.9, y = 0, z = 0\<rparr>, \<lparr>x = 4.9, y = 0, z = 0\<rparr>)
      = (\<lparr>x = 4.9, y = 0, z = 0\<rparr>, \<lparr>x = 4.9, y = 0, z = 0\<rparr>)"
    by (simp add: reflect_def)
  have s: "sqrt (2401 / 100) = 49 / 10"
    by (rule real_sqrt_unique) (simp_all add: power2_eq_square)
  have m: "updateMesh plainMesh \<lparr>x = 4.9, y = 0, z = 0\<rparr> \<lparr>x = 4.9, y = 0, z = 0\<rparr>
      = Some \<lparr>mesh_position = \<lparr>x = 4.9, y = 0, z = 0\<rparr>,
               orientation = LookAt_rotateY \<lparr>x = 5.9, y = 0, z = 0\<rparr> (- pi / 2)\<rparr>"
    by (simp add: updateMesh_def Let_def length_v_def normalize_v_Some multiplyScalar_def add_def
        plainMesh_def s)
  show ?thesis
    using fast_pre r m by (simp add: stepFish_def)
qed

lemma updateMesh_position: "updateMesh m p v = Some m' \<Longrightarrow> mesh_position m' = p"
  by (auto simp: updateMesh_def Let_def normalize_v_Some split: if_splits)

lemma stepFish_mesh:
  assumes "stepFish ms d m fish fishes mp iw ih r = Some fish'"
  shows "\<exists>m'. mesh fish' = Some m' \<and> mesh_position m' = position fish'"
proof -
  obtain pv where pv: "preReflection ms d fish fishes mp iw ih r = Some pv"
    using preReflection_total by blast
  obtain p v where r: "reflect (real iw / 2) (real ih / 2) pv = (p, v)"
    by (cases "reflect (real iw / 2) (real ih / 2) pv") auto
  obtain m' where m': "updateMesh m p v = Some m'" using updateMesh_total by blast
  from assms have "fish' = fish\<lparr>position := p, velocity := v, mesh := Some m'\<rparr>"
    by (simp add: stepFish_def pv r m')
  with updateMesh_position [OF m'] show ?thesis by simp
qed

lemma flock_pass_updated:
  assumes "i < length fishes" and "0 \<le> ms" and "0 \<le> d"
  shows "\<exists>fishes'. forEachIndex (updateFish ms d mp iw ih random) [0 ..< length fishes] fishes
            = Some fishes' \<and> length fishes' = length fishes \<and>
          (case mesh (fishes ! i) of
             None \<Rightarrow> fishes' ! i = fishes ! i
           | Some m \<Rightarrow>
               stepFish ms d m (fishes ! i) (take i fishes' @ drop i fishes) mp iw ih (random i)
                 = Some (fishes' ! i) \<and>
               (\<exists>m'. mesh (fishes' ! i) = Some m' \<and> mesh_position m' = position (fishes' ! i)) \<and>
               length_v (velocity (fishes' ! i)) \<le> d * ms \<and>
               withinBounds (real iw / 2) (real ih / 2) (position (fishes' ! i)) \<and>
               fish_id (fishes' ! i) = fish_id (fishes ! i) \<and>
               color (fishes' ! i) = color (fishes ! i))"
proof -
  from flock_pass [OF assms(1), of ms d mp iw ih random] obtain fishes' where
    run: "forEachIndex (updateFish ms d mp iw ih random) [0 ..< length fishes] fishes = Some fishes'"
    and len: "length fishes' = length fishes"
    and c: "case mesh (fishes ! i) of
             None \<Rightarrow> fishes' ! i = fishes ! i
           | Some m \<Rightarrow>
               stepFish ms d m (fishes ! i) (take i fishes' @ drop i fishes) mp iw ih (random i)
                 = Some (fishes' ! i)"
    by blast
  have "case mesh (fishes ! i) of
             None \<Rightarrow> fishes' ! i = fishes ! i
           | Some m \<Rightarrow>
               stepFish ms d m (fishes ! i) (take i fishes' @ drop i fishes) mp iw ih (random i)
                 = Some (fishes' ! i) \<and>
               (\<exists>m'. mesh (fishes' ! i) = Some m' \<and> mesh_position m' = position (fishes' ! i)) \<and>
               length_v (velocity (fishes' ! i)) \<le> d * ms \<and>
               withinBounds (real iw / 2) (real ih / 2) (position (fishes' ! i)) \<and>
               fish_id (fishes' ! i) = fish_id (fishes ! i) \<and>
               color (fishes' ! i) = color (fishes ! i)"
  proof (cases "mesh (fishes ! i)")
    case None
    with c show ?thesis by simp
  next
    case (Some m)
    with c have s: "stepFish ms d m (fishes ! i) (take i fishes' @ drop i fishes) mp iw ih (random i)
                 = Some (fishes' ! i)" by simp
    have ids: "fish_id (fishes' ! i) = fish_id (fishes ! i) \<and> color (fishes' ! i) = color (fishes ! i)"
      using s by (rule stepFish_result) simp
    from s stepFish_mesh [OF s] stepFish_speed [OF assms(2,3) s] stepFish_bounds [OF s] ids
    show ?thesis using Some by (simp add: withinBounds_def)
  qed
  with run len show ?thesis by blast
qed

text \<open>
  Claim C10. A pass leaves a fish whose mesh is null exactly as it was, in every field,
  and still updates every fish that has a mesh: the value of such a fish after the pass
  is the result of the callback body, run on the array as it stood when its turn came
  (the fish before it already updated, the others not yet); its mesh sits at its new
  position, its speed is within the damped cap and its position within the bounds, its id
  and colour are kept. In the sample pass the fish without a mesh is untouched and the
  fish after it goes from the origin with velocity \<open>(10, 0, 0)\<close> to position and velocity
  \<open>(4.9, 0, 0)\<close>, its mesh with it.
\<close>

theorem null_mesh_skipped:
  assumes "i < length fishes"
  shows "(\<exists>fishes'. updateFishAnimation fishes mp iw ih random = Some fishes' \<and>
            length fishes' = length fishes \<and>
            (case mesh (fishes ! i) of
               None \<Rightarrow> fishes' ! i = fishes ! i
             | Some m \<Rightarrow>
                 stepFish 5 0.98 m (fishes ! i) (take i fishes' @ drop i fishes) mp iw ih (random i)
                   = Some (fishes' ! i) \<and>
                 (\<exists>m'. mesh (fishes' ! i) = Some m' \<and> mesh_position m' = position (fishes' ! i)) \<and>
                 length_v (velocity (fishes' ! i)) \<le> 0.98 * 5 \<and>
                 withinBounds (real iw / 2) (real ih / 2) (position (fishes' ! i)) \<and>
                 fish_id (fishes' ! i) = fish_id (fishes ! i) \<and>
                 color (fishes' ! i) = color (fishes ! i))) \<and>
         (\<exists>fishes'. animateFishes fishes mp iw ih random = Some fishes' \<and>
            length fishes' = length fishes \<and>
            (case mesh (fishes ! i) of
               None \<Rightarrow> fishes' ! i = fishes ! i
             | Some m \<Rightarrow>
                 stepFish 3 0.99 m (fishes ! i) (take i fishes' @ drop i fishes) mp iw ih (random i)
                   = Some (fishes' ! i) \<and>
                 (\<exists>m'. mesh (fishes' ! i) = Some m' \<and> mesh_position m' = position (fishes' ! i)) \<and>
                 length_v (velocity (fishes' ! i)) \<le> 0.99 * 3 \<and>
                 withinBounds (real iw / 2) (real ih / 2) (position (fishes' ! i)) \<and>
                 fish_id (fishes' ! i) = fish_id (fishes ! i) \<and>
                 color (fishes' ! i) = color (fishes ! i)))"
  using flock_pass_updated [OF assms, of 5 "0.98" mp iw ih random]
    flock_pass_updated [OF assms, of 3 "0.99" mp iw ih random]
  by (simp add: updateFishAnimation_def animateFishes_def)

theorem null_mesh_skipped_witness:
  "updateFishAnimation [strandedFish, fastFish] pointer0 800 600 noJitter =
     Some [strandedFish,
           fastFish\<lparr>position := \<lparr>x = 4.9, y = 0, z = 0\<rparr>, velocity := \<lparr>x = 4.9, y = 0, z = 0\<rparr>,
             mesh := Some \<lparr>mesh_position = \<lparr>x = 4.9, y = 0, z = 0\<rparr>,
                           orientation = LookAt_rotateY \<lparr>x = 5.9, y = 0, z = 0\<rparr> (- pi / 2)\<rparr>\<rparr>] \<and>
   position fastFish = \<lparr>x = 0, y = 0, z = 0\<rparr> \<and> velocity fastFish = \<lparr>x = 10, y = 0, z = 0\<rparr> \<and>
   mesh fastFish = Some \<lparr>mesh_position = \<lparr>x = 0, y = 0, z = 0\<rparr>, orientation = Authored\<rparr> \<and>
   mesh strandedFish = None"
proof -
  from null_mesh_skipped [of 0 "[strandedFish, fastFish]" pointer0 800 600 noJitter]
  obtain f0 where f0: "updateFishAnimation [strandedFish, fastFish] pointer0 800 600 noJitter = Some f0"
    "length f0 = 2" "f0 ! 0 = strandedFish"
    by (auto simp: strandedFish_def)
  from null_mesh_skipped [of 1 "[strandedFish, fastFish]" pointer0 800 600 noJitter] f0(1)
  have "stepFish 5 0.98 plainMesh fastFish (take 1 f0 @ drop 1 [strandedFish, fastFish])
          pointer0 800 600 (noJitter 1) = Some (f0 ! 1)"
    by (auto simp: fastFish_def)
  moreover have "take 1 f0 = [strandedFish]"
    using f0(2,3) by (cases f0) auto
  ultimately have "stepFish 5 0.98 plainMesh fastFish [strandedFish, fastFish]
          pointer0 800 600 (0.5, 0.5, 0.5) = Some (f0 ! 1)"
    by (simp add: noJitter_def)
  with fast_step have f1: "f0 ! 1 = fastFish\<lparr>position := \<lparr>x = 4.9, y = 0, z = 0\<rparr>,
      velocity := \<lparr>x = 4.9, y = 0, z = 0\<rparr>,
      mesh := Some \<lparr>mesh_position = \<lparr>x = 4.9, y = 0, z = 0\<rparr>,
                    orientation = LookAt_rotateY \<lparr>x = 5.9, y = 0, z = 0\<rparr> (- pi / 2)\<rparr>\<rparr>"
    by simp
  have "f0 = [f0 ! 0, f0 ! 1]"
  proof (cases f0)
    case Nil
    with f0(2) show ?thesis by simp
  next
    case (Cons a as)
    with f0(2) show ?thesis by (cases as) simp_all
  qed
  with f0 f1 show ?thesis
    by (simp add: fastFish_def strandedFish_def plainMesh_def zeroVector_def)
qed

end
